theory Spec2Isabelle
  imports Main "HOL-Library.Word" "HOL-Library.Sublist"
begin

section \<open>JavaScript strings\<close>

text \<open>
  A JavaScript string is a sequence of UTF-16 code units; \<open>length\<close>, indexing, \<open>slice\<close>
  and regular expressions without the \<open>u\<close> flag all work on code units.  Literals of
  the source are written \<open>js ''...''\<close>.
\<close>

type_synonym char16 = "16 word"
type_synonym jsstring = "char16 list"

definition js :: "string \<Rightarrow> jsstring" where
  "js s = map (\<lambda>c. of_nat (of_char c)) s"

text \<open>
  The class \<open>\s\<close> of regular expressions and the characters removed by \<open>trim()\<close> are
  the same set: WhiteSpace and LineTerminator of ECMAScript.
\<close>

definition isWhiteSpace :: "char16 \<Rightarrow> bool" where
  "isWhiteSpace c \<longleftrightarrow>
     (0x09 \<le> c \<and> c \<le> 0x0D) \<or> c = 0x20 \<or> c = 0xA0 \<or> c = 0x1680 \<or>
     (0x2000 \<le> c \<and> c \<le> 0x200A) \<or> c = 0x2028 \<or> c = 0x2029 \<or> c = 0x202F \<or>
     c = 0x205F \<or> c = 0x3000 \<or> c = 0xFEFF"

definition trim :: "jsstring \<Rightarrow> jsstring" where
  "trim s = rev (dropWhile isWhiteSpace (rev (dropWhile isWhiteSpace s)))"

text \<open>
  \<open>toLowerCase()\<close> and \<open>toUpperCase()\<close> on the letters A to Z and a to z.  Code
  units outside these ranges are kept as they are: of the Unicode case mapping only the
  ASCII part is reproduced, the part that decides a match against the command names of
  this program, which are ASCII.
\<close>

definition lowerUnit :: "char16 \<Rightarrow> char16" where
  "lowerUnit c = (if 0x41 \<le> c \<and> c \<le> 0x5A then c + 0x20 else c)"

definition toLowerCase :: "jsstring \<Rightarrow> jsstring" where
  "toLowerCase s = map lowerUnit s"

definition upperUnit :: "char16 \<Rightarrow> char16" where
  "upperUnit c = (if 0x61 \<le> c \<and> c \<le> 0x7A then c - 0x20 else c)"

definition toUpperCase :: "jsstring \<Rightarrow> jsstring" where
  "toUpperCase s = map upperUnit s"

definition startsWith :: "jsstring \<Rightarrow> jsstring \<Rightarrow> bool" where
  "startsWith s p \<longleftrightarrow> prefix p s"

text \<open>\<open>s.includes(p)\<close>: \<open>p\<close> occurs in \<open>s\<close> as a contiguous run.\<close>

fun includesStr :: "jsstring \<Rightarrow> jsstring \<Rightarrow> bool" where
  "includesStr [] p = (p = [])"
| "includesStr (c # cs) p = (prefix p (c # cs) \<or> includesStr cs p)"

text \<open>\<open>s.split(/\s+/)\<close>: the pieces between maximal runs of white space.\<close>

fun splitWs :: "jsstring \<Rightarrow> jsstring list" where
  "splitWs [] = [[]]"
| "splitWs (c # cs) =
     (if isWhiteSpace c then
        (if cs \<noteq> [] \<and> isWhiteSpace (hd cs) then splitWs cs else [] # splitWs cs)
      else (case splitWs cs of [] \<Rightarrow> [[c]] | t # ts \<Rightarrow> (c # t) # ts))"

text \<open>\<open>padEnd(n)\<close> with the default filler, a space.\<close>

definition padEnd :: "nat \<Rightarrow> jsstring \<Rightarrow> jsstring" where
  "padEnd n s = s @ replicate (n - length s) 0x20"

text \<open>Decimal rendering of a non-negative integer inside a template literal.\<close>

fun digits :: "nat \<Rightarrow> nat \<Rightarrow> jsstring" where
  "digits 0 n = []"
| "digits (Suc fuel) n =
     (if n < 10 then [of_nat (48 + n)] else digits fuel (n div 10) @ [of_nat (48 + n mod 10)])"

definition showNat :: "nat \<Rightarrow> jsstring" where
  "showNat n = digits (Suc n) n"

section \<open>Session manager\<close>

datatype role = User | Assistant | System

text \<open>
  A message as a value: the timestamp is the time value of the \<open>Date\<close> (milliseconds).
  The object identity of messages and dates is modelled separately in the section on
  the store.
\<close>

record SessionMessage =
  role :: role
  content :: jsstring
  timestamp :: int

text \<open>
  The ceiling is a JavaScript number that the constructor stores unchecked; the model
  takes it as an integer, negative values included.
\<close>

record SessionManager =
  messages :: "SessionMessage list"
  maxTokens :: int

definition newSessionManager :: "int option \<Rightarrow> SessionManager" where
  "newSessionManager opt =
     \<lparr>messages = [], maxTokens = (case opt of None \<Rightarrow> 100000 | Some n \<Rightarrow> n)\<rparr>"

text \<open>\<open>addMessage\<close>; \<open>now\<close> is the clock reading that \<open>new Date()\<close> takes.\<close>

definition addMessage :: "int \<Rightarrow> role \<Rightarrow> jsstring \<Rightarrow> SessionManager \<Rightarrow> SessionManager" where
  "addMessage now r c s =
     s\<lparr>messages := messages s @ [\<lparr>role = r, content = c, timestamp = now\<rparr>]\<rparr>"

definition getMessages :: "SessionManager \<Rightarrow> SessionMessage list" where
  "getMessages s = map (\<lambda>msg. msg) (messages s)"

definition clear :: "SessionManager \<Rightarrow> SessionManager" where
  "clear s = s\<lparr>messages := []\<rparr>"

definition getMaxTokens :: "SessionManager \<Rightarrow> int" where
  "getMaxTokens s = maxTokens s"

definition isChinese :: "char16 \<Rightarrow> bool" where
  "isChinese c \<longleftrightarrow> 0x4E00 \<le> c \<and> c \<le> 0x9FA5"

text \<open>\<open>Math.ceil(n / d)\<close> for a count \<open>n\<close> and \<open>d = 2\<close> or \<open>4\<close>.\<close>

definition ceilDiv :: "nat \<Rightarrow> nat \<Rightarrow> nat" where
  "ceilDiv n d = (n + d - 1) div d"

definition estimateTokens :: "jsstring \<Rightarrow> nat" where
  "estimateTokens text =
     (let chineseChars = length (filter isChinese text);
          otherChars = length text - chineseChars
      in ceilDiv chineseChars 2 + ceilDiv otherChars 4)"

text \<open>The \<open>for ... of\<close> loop of \<open>getEstimatedTokenCount\<close>, with its running total.\<close>

fun countLoop :: "nat \<Rightarrow> SessionMessage list \<Rightarrow> nat" where
  "countLoop tot [] = tot"
| "countLoop tot (message # rest) =
     countLoop (tot + estimateTokens (content message) + 10) rest"

definition getEstimatedTokenCount :: "SessionManager \<Rightarrow> nat" where
  "getEstimatedTokenCount s = countLoop 0 (messages s)"

text \<open>The \<open>while\<close> loop of \<open>trimToTokenLimit\<close>; \<open>shift()\<close> removes the first element.\<close>

function trimLoop :: "SessionManager \<Rightarrow> SessionManager" where
  "trimLoop s =
     (if int (getEstimatedTokenCount s) > maxTokens s \<and> length (messages s) > 0
      then trimLoop (s\<lparr>messages := tl (messages s)\<rparr>)
      else s)"
  by pat_completeness auto
termination
  by (relation "measure (\<lambda>s. length (messages s))") auto

declare trimLoop.simps [simp del]

definition trimToTokenLimit :: "SessionManager \<Rightarrow> bool \<times> SessionManager" where
  "trimToTokenLimit s =
     (let currentCount = getEstimatedTokenCount s
      in if int currentCount \<le> maxTokens s then (False, s) else (True, trimLoop s))"

definition getLastNMessages :: "int \<Rightarrow> SessionManager \<Rightarrow> SessionMessage list" where
  "getLastNMessages n s =
     (if n \<le> 0 then []
      else let start = max 0 (int (length (messages s)) - n)
           in drop (nat start) (messages s))"

definition getMessagesForAI :: "SessionManager \<Rightarrow> (role \<times> jsstring) list" where
  "getMessagesForAI s = map (\<lambda>msg. (role msg, content msg)) (messages s)"

definition getMessageCount :: "SessionManager \<Rightarrow> nat" where
  "getMessageCount s = length (messages s)"

text \<open>The condition of the \<open>while\<close> loop, on a log and a ceiling.\<close>

definition overBudget :: "int \<Rightarrow> SessionMessage list \<Rightarrow> bool" where
  "overBudget mx ms \<longleftrightarrow> int (countLoop 0 ms) > mx \<and> length ms > 0"








section \<open>Raw input handler\<close>

text \<open>
  \<open>s.slice(a, b)\<close> and \<open>s.slice(a)\<close>: a negative index counts from the end, and both
  ends are clamped to the string.
\<close>

definition sliceIndex :: "jsstring \<Rightarrow> int \<Rightarrow> nat" where
  "sliceIndex s i =
     (if i < 0 then nat (max (int (length s) + i) 0) else min (nat i) (length s))"

definition slice :: "jsstring \<Rightarrow> int \<Rightarrow> int \<Rightarrow> jsstring" where
  "slice s a b = take (sliceIndex s b - sliceIndex s a) (drop (sliceIndex s a) s)"

definition sliceFrom :: "jsstring \<Rightarrow> int \<Rightarrow> jsstring" where
  "sliceFrom s a = drop (sliceIndex s a) s"

text \<open>\<open>s.search(/\S/)\<close>: the index of the first unit that is not white space, or \<open>-1\<close>.\<close>

fun searchNonSpace :: "jsstring \<Rightarrow> int" where
  "searchNonSpace [] = -1"
| "searchNonSpace (c # cs) =
     (if \<not> isWhiteSpace c then 0
      else (let r = searchNonSpace cs in if r < 0 then -1 else r + 1))"

text \<open>\<open>s.indexOf(c, from)\<close> for a single unit \<open>c\<close> and \<open>from \<ge> 0\<close>.\<close>

fun indexOfUnit :: "jsstring \<Rightarrow> char16 \<Rightarrow> int" where
  "indexOfUnit [] c = -1"
| "indexOfUnit (d # ds) c =
     (if d = c then 0 else (let r = indexOfUnit ds c in if r < 0 then -1 else r + 1))"

definition indexOfFrom :: "jsstring \<Rightarrow> char16 \<Rightarrow> int \<Rightarrow> int" where
  "indexOfFrom s c from =
     (let k = min (nat from) (length s); r = indexOfUnit (drop k s) c
      in if r < 0 then -1 else int k + r)"

text \<open>The remainder operator \<open>%\<close> on integers: the sign follows the dividend.\<close>

definition jsRem :: "int \<Rightarrow> int \<Rightarrow> int" where
  "jsRem a b = sgn a * (\<bar>a\<bar> mod \<bar>b\<bar>)"

text \<open>
  \<open>parseInt(s, 10)\<close>: leading white space, an optional sign and the longest run of
  decimal digits; \<open>None\<close> is \<open>NaN\<close>.
\<close>

definition isDigit :: "char16 \<Rightarrow> bool" where
  "isDigit c \<longleftrightarrow> 0x30 \<le> c \<and> c \<le> 0x39"

definition digitsValue :: "jsstring \<Rightarrow> int" where
  "digitsValue ds = foldl (\<lambda>a d. 10 * a + (uint d - 48)) 0 ds"

definition parseInt :: "jsstring \<Rightarrow> int option" where
  "parseInt s =
     (let s1 = dropWhile isWhiteSpace s;
          neg = (s1 \<noteq> [] \<and> hd s1 = 0x2D);
          s2 = (if s1 \<noteq> [] \<and> (hd s1 = 0x2D \<or> hd s1 = 0x2B) then tl s1 else s1);
          ds = takeWhile isDigit s2
      in if ds = [] then None
         else Some (if neg then - digitsValue ds else digitsValue ds))"

record InputState =
  buffer :: jsstring
  cursor :: int
  showMenu :: bool
  selectedIndex :: int

record CommandOption =
  name :: jsstring
  description :: jsstring

text \<open>
  The handler object.  \<open>resolveInput\<close> tells whether the field holds the resolver of the
  promise that \<open>readLine\<close> returned; \<open>settled\<close> is the state of that promise: \<open>None\<close>
  while it is pending, \<open>Some None\<close> once resolved with \<open>null\<close>, \<open>Some (Some v)\<close> once
  resolved with the string \<open>v\<close>.  What \<open>render\<close>, \<open>clearRender\<close> and \<open>finalizeInput\<close>
  write to the terminal, and the counter \<open>renderedLines\<close> that only they read, are left
  out.
\<close>

record RawInputHandler =
  state :: InputState
  commands :: "CommandOption list"
  filteredCommands :: "CommandOption list"
  prompt :: jsstring
  resolveInput :: bool
  active :: bool
  rawMode :: bool
  settled :: "jsstring option option"

definition initialState :: InputState where
  "initialState = \<lparr>buffer = [], cursor = 0, showMenu = False, selectedIndex = 0\<rparr>"



text \<open>Calling the resolver: a promise keeps the first value it is resolved with.\<close>

definition callResolve :: "jsstring option \<Rightarrow> RawInputHandler \<Rightarrow> RawInputHandler" where
  "callResolve v h = (if settled h = None then h\<lparr>settled := Some v\<rparr> else h)"

definition getCommandQuery :: "RawInputHandler \<Rightarrow> jsstring option" where
  "getCommandQuery h =
     (let buf = buffer (state h);
          firstNonSpace = searchNonSpace buf
      in if firstNonSpace = -1 then None
         else if buf ! nat firstNonSpace \<noteq> 0x2F then None
         else let slashIndex = indexOfFrom buf 0x2F firstNonSpace
              in if cursor (state h) \<le> slashIndex then Some []
                 else let afterSlash = slice buf (slashIndex + 1) (cursor (state h))
                      in if list_ex isWhiteSpace afterSlash then None
                         else Some afterSlash)"

definition filterCommands :: "jsstring \<Rightarrow> RawInputHandler \<Rightarrow> RawInputHandler" where
  "filterCommands query h =
     (let input = toLowerCase query;
          h1 = h\<lparr>filteredCommands :=
                   filter (\<lambda>cmd. startsWith (toLowerCase (name cmd)) input) (commands h)\<rparr>
      in if length (filteredCommands h1) > 0
         then h1\<lparr>state := (state h1)\<lparr>selectedIndex := 0\<rparr>\<rparr>
         else h1)"

definition updateMenuState :: "RawInputHandler \<Rightarrow> RawInputHandler" where
  "updateMenuState h =
     (case getCommandQuery h of
        None \<Rightarrow> h\<lparr>state := (state h)\<lparr>showMenu := False, selectedIndex := 0\<rparr>,
                   filteredCommands := []\<rparr>
      | Some query \<Rightarrow> filterCommands query (h\<lparr>state := (state h)\<lparr>showMenu := True\<rparr>\<rparr>))"

definition handleChar :: "jsstring \<Rightarrow> RawInputHandler \<Rightarrow> RawInputHandler" where
  "handleChar ch h =
     (let st = state h;
          st1 = st\<lparr>buffer := slice (buffer st) 0 (cursor st) @ ch @ sliceFrom (buffer st) (cursor st)\<rparr>;
          st2 = st1\<lparr>cursor := cursor st1 + 1\<rparr>
      in updateMenuState (h\<lparr>state := st2\<rparr>))"

definition handleBackspace :: "RawInputHandler \<Rightarrow> RawInputHandler" where
  "handleBackspace h =
     (let st = state h
      in if cursor st > 0
         then let st1 = st\<lparr>buffer := slice (buffer st) 0 (cursor st - 1) @
                                        sliceFrom (buffer st) (cursor st)\<rparr>;
                  st2 = st1\<lparr>cursor := cursor st1 - 1\<rparr>
              in updateMenuState (h\<lparr>state := st2\<rparr>)
         else h)"

definition handleArrowUp :: "RawInputHandler \<Rightarrow> RawInputHandler" where
  "handleArrowUp h =
     (if showMenu (state h) \<and> length (filteredCommands h) > 0
      then h\<lparr>state := (state h)\<lparr>selectedIndex :=
                 jsRem (selectedIndex (state h) - 1 + int (length (filteredCommands h)))
                       (int (length (filteredCommands h)))\<rparr>\<rparr>
      else h)"

definition handleArrowDown :: "RawInputHandler \<Rightarrow> RawInputHandler" where
  "handleArrowDown h =
     (if showMenu (state h) \<and> length (filteredCommands h) > 0
      then h\<lparr>state := (state h)\<lparr>selectedIndex :=
                 jsRem (selectedIndex (state h) + 1) (int (length (filteredCommands h)))\<rparr>\<rparr>
      else h)"

definition handleArrowRight :: "RawInputHandler \<Rightarrow> RawInputHandler" where
  "handleArrowRight h =
     (if cursor (state h) < int (length (buffer (state h)))
      then updateMenuState (h\<lparr>state := (state h)\<lparr>cursor := cursor (state h) + 1\<rparr>\<rparr>)
      else h)"

definition handleArrowLeft :: "RawInputHandler \<Rightarrow> RawInputHandler" where
  "handleArrowLeft h =
     (if cursor (state h) > 0
      then updateMenuState (h\<lparr>state := (state h)\<lparr>cursor := cursor (state h) - 1\<rparr>\<rparr>)
      else h)"

text \<open>\<open>cleanup\<close>, as called by \<open>finalizeInput\<close>.\<close>

definition cleanup :: "RawInputHandler \<Rightarrow> RawInputHandler" where
  "cleanup h = h\<lparr>active := False, rawMode := False\<rparr>"

datatype thrown = ErrorObject jsstring | NonError

text \<open>
  \<open>handleSubmit\<close>.  Reading \<open>filteredCommands[selectedIndex]\<close> outside the array gives
  \<open>undefined\<close>, and \<open>selected.name\<close> then throws a TypeError.
\<close>

definition handleSubmit :: "RawInputHandler \<Rightarrow> thrown + RawInputHandler" where
  "handleSubmit h =
     (let input = buffer (state h)
      in if showMenu (state h) \<and> length (filteredCommands h) > 0
         then (if 0 \<le> selectedIndex (state h) \<and>
                  selectedIndex (state h) < int (length (filteredCommands h))
               then let selected = filteredCommands h ! nat (selectedIndex (state h));
                        h1 = cleanup h
                    in Inr (if resolveInput h1
                            then callResolve (Some (js ''/'' @ name selected)) h1 else h1)
               else Inl (ErrorObject (js ''Cannot read properties of undefined (reading 'name')'')))
         else let h1 = cleanup h
              in Inr (if resolveInput h1
                      then callResolve (if input = [] then None else Some input) h1
                      else h1))"

definition handleCancel :: "RawInputHandler \<Rightarrow> RawInputHandler" where
  "handleCancel h =
     (let h1 = cleanup h in if resolveInput h1 then callResolve None h1 else h1)"

definition handleData :: "jsstring \<Rightarrow> RawInputHandler \<Rightarrow> thrown + RawInputHandler" where
  "handleData str h =
     (if \<not> active h then Inr h
      else if str = [0x0D] \<or> str = [0x0A] then handleSubmit h
      else if str = [0x03] then Inr (handleCancel h)
      else if str = [0x04] then Inr (handleCancel h)
      else if str = [0x7F] \<or> str = [0x08] then Inr (handleBackspace h)
      else if str = [0x1B, 0x5B, 0x41] then Inr (handleArrowUp h)
      else if str = [0x1B, 0x5B, 0x42] then Inr (handleArrowDown h)
      else if str = [0x1B, 0x5B, 0x43] then Inr (handleArrowRight h)
      else if str = [0x1B, 0x5B, 0x44] then Inr (handleArrowLeft h)
      else if length str = 1 \<and> hd str \<ge> 32 then Inr (handleChar str h)
      else Inr h)"

text \<open>The \<open>data\<close> events of one read, in order; a throwing handler ends the run.\<close>

fun feed :: "jsstring list \<Rightarrow> RawInputHandler \<Rightarrow> thrown + RawInputHandler" where
  "feed [] h = Inr h"
| "feed (d # ds) h = (case handleData d h of Inl e \<Rightarrow> Inl e | Inr h1 \<Rightarrow> feed ds h1)"

definition handleSelection :: "jsstring \<Rightarrow> RawInputHandler \<Rightarrow> jsstring option" where
  "handleSelection inp h =
     (let trimmed = trim inp
      in if trimmed = [] \<or> trimmed = js ''q'' \<or> trimmed = js ''Q'' then None
         else case parseInt trimmed of
                Some num \<Rightarrow>
                  if num \<ge> 1 \<and> num \<le> int (length (filteredCommands h))
                  then Some (name (filteredCommands h ! nat (num - 1)))
                  else map_option name
                         (find (\<lambda>cmd. toLowerCase (name cmd) = toLowerCase trimmed)
                               (filteredCommands h))
              | None \<Rightarrow>
                  map_option name
                    (find (\<lambda>cmd. toLowerCase (name cmd) = toLowerCase trimmed)
                          (filteredCommands h)))"

text \<open>
  What the terminal delivers during one \<open>readLine\<close>: whether stdin is a TTY, whether
  \<open>setRawMode(true)\<close> succeeds, the \<open>data\<close> events of raw mode, and the lines that the
  two questions of the readline fallback receive (\<open>None\<close>: the stream ended and the
  callback was never called).
\<close>

record Terminal =
  isTTY :: bool
  rawModeOk :: bool
  keys :: "jsstring list"
  answerLine :: "jsstring option"
  selectionLine :: "jsstring option"

definition useReadline :: "Terminal \<Rightarrow> RawInputHandler \<Rightarrow> RawInputHandler" where
  "useReadline t h =
     (case answerLine t of
        None \<Rightarrow> h
      | Some answer \<Rightarrow>
          let h1 = h\<lparr>state := (state h)\<lparr>buffer := answer, cursor := int (length answer)\<rparr>\<rparr>
          in if trim answer = js ''/'' \<or> startsWith (trim answer) (js ''/'')
             then let h2 = (case getCommandQuery h1 of
                              None \<Rightarrow> h1 | Some query \<Rightarrow> filterCommands query h1)
                  in if length (filteredCommands h2) > 0
                     then (case selectionLine t of
                             None \<Rightarrow> h2
                           | Some selection \<Rightarrow>
                               let selected = handleSelection selection h2;
                                   h3 = (if resolveInput h2
                                         then (callResolve
                                                 (case selected of
                                                    None \<Rightarrow> Some answer
                                                  | Some sel \<Rightarrow>
                                                      if sel = [] then Some answer
                                                      else Some (js ''/'' @ sel)) h2)
                                                \<lparr>resolveInput := False\<rparr>
                                         else h2)
                               in h3\<lparr>active := False\<rparr>)
                     else (let h3 = (if resolveInput h2
                                     then (callResolve (Some answer) h2)\<lparr>resolveInput := False\<rparr>
                                     else h2)
                           in h3\<lparr>active := False\<rparr>)
             else (let h3 = (if resolveInput h1
                             then (callResolve (if answer = [] then None else Some answer) h1)
                                    \<lparr>resolveInput := False\<rparr>
                             else h1)
                   in h3\<lparr>active := False\<rparr>))"

text \<open>
  \<open>readLine\<close> with everything the terminal then delivers: the handler after the read,
  or the exception that ended it.
\<close>

definition readLine :: "jsstring \<Rightarrow> Terminal \<Rightarrow> RawInputHandler \<Rightarrow> thrown + RawInputHandler" where
  "readLine p t h =
     (let h1 = h\<lparr>resolveInput := True, settled := None, active := True, prompt := p,
                  state := initialState, filteredCommands := []\<rparr>
      in if \<not> isTTY t then Inr (useReadline t h1)
         else if \<not> rawModeOk t then Inr (useReadline t h1)
         else feed (keys t) (h1\<lparr>rawMode := True\<rparr>))"

definition stop :: "RawInputHandler \<Rightarrow> RawInputHandler" where
  "stop h =
     (let h1 = h\<lparr>active := False, rawMode := False\<rparr>
      in if resolveInput h1 then (callResolve None h1)\<lparr>resolveInput := False\<rparr> else h1)"

text \<open>The value the promise of \<open>readLine\<close> was resolved with, if it was.\<close>

definition resolution :: "thrown + RawInputHandler \<Rightarrow> jsstring option option" where
  "resolution r = (case r of Inl e \<Rightarrow> None | Inr h \<Rightarrow> settled h)"



definition rawTerminal :: "jsstring list \<Rightarrow> Terminal" where
  "rawTerminal ks =
     \<lparr>isTTY = True, rawModeOk = True, keys = ks, answerLine = None, selectionLine = None\<rparr>"

definition lineTerminal :: "jsstring option \<Rightarrow> jsstring option \<Rightarrow> Terminal" where
  "lineTerminal a b =
     \<lparr>isTTY = False, rawModeOk = False, keys = [], answerLine = a, selectionLine = b\<rparr>"


section \<open>REPL\<close>

record UIConfig =
  theme :: jsstring
  streamOutput :: bool
  showLineNumbers :: bool

text \<open>
  Of the configuration the REPL reads \<open>ui.streamOutput\<close> only; the fields \<open>ai\<close> and
  \<open>workspace\<close> reach it through \<open>JSON.stringify\<close> alone and are left out.
\<close>

record Config =
  ui :: UIConfig

text \<open>
  The provider as the REPL sees it.  \<open>chat\<close> returns the content of the response or
  throws; \<open>chatStream\<close> yields its chunks in order and then either ends (\<open>None\<close>) or
  throws.
\<close>

record AIProvider =
  chat :: "(role \<times> jsstring) list \<Rightarrow> thrown + jsstring"
  chatStream :: "(role \<times> jsstring) list \<Rightarrow> jsstring list \<times> thrown option"

text \<open>
  The context bound to the REPL: \<open>tools\<close> lists the entries of the tool map (key and
  description of each tool) in insertion order.  \<open>stringifyConfig\<close> stands for
  \<open>JSON.stringify(config, null, 2)\<close> and \<open>toLocaleTimeString\<close> for the method of
  \<open>Date\<close>, on the time value.  The session lives in the state below.
\<close>

record REPLContext =
  config :: Config
  aiProvider :: AIProvider
  tools :: "(jsstring \<times> jsstring) list"
  stringifyConfig :: "Config \<Rightarrow> jsstring"
  toLocaleTimeString :: "int \<Rightarrow> jsstring"

text \<open>
  What a turn changes: the session, the lines passed to the \<open>output\<close> callback, the
  strings written to \<open>process.stdout\<close> and the lines of \<open>console.log\<close>.
\<close>

record REPLState =
  session :: SessionManager
  outputs :: "jsstring list"
  stdoutWrites :: "jsstring list"
  consoleLog :: "jsstring list"

definition outputLine :: "jsstring \<Rightarrow> REPLState \<Rightarrow> REPLState" where
  "outputLine text st = st\<lparr>outputs := outputs st @ [text]\<rparr>"

datatype CommandHandler = CmdHelp | CmdClear | CmdExit | CmdConfig | CmdTools | CmdHistory

text \<open>\<open>registerBuiltinCommands\<close>: the map from command names to handlers.\<close>

definition registeredCommands :: "(jsstring \<times> CommandHandler) list" where
  "registeredCommands =
     [(js ''help'', CmdHelp), (js ''clear'', CmdClear), (js ''exit'', CmdExit),
      (js ''quit'', CmdExit), (js ''config'', CmdConfig), (js ''tools'', CmdTools),
      (js ''history'', CmdHistory)]"

definition cmdHelp :: "REPLState \<Rightarrow> bool \<times> REPLState" where
  "cmdHelp st =
     (False,
      outputLine (js ''  /history  - Show conversation history'')
       (outputLine (js ''  /tools    - List available tools'')
        (outputLine (js ''  /config   - Show current configuration'')
         (outputLine (js ''  /quit     - Exit the REPL (same as /exit)'')
          (outputLine (js ''  /exit     - Exit the REPL'')
           (outputLine (js ''  /clear    - Clear conversation history'')
            (outputLine (js ''  /help     - Show this help message'')
             (outputLine (js ''Available Commands:'') st))))))))"

definition cmdClear :: "REPLState \<Rightarrow> bool \<times> REPLState" where
  "cmdClear st = (False, outputLine (js ''Session cleared'') (st\<lparr>session := clear (session st)\<rparr>))"

definition cmdExit :: "REPLState \<Rightarrow> bool \<times> REPLState" where
  "cmdExit st = (True, outputLine (js ''Goodbye!'') st)"

definition cmdConfig :: "REPLContext \<Rightarrow> REPLState \<Rightarrow> bool \<times> REPLState" where
  "cmdConfig ctx st =
     (False, outputLine (stringifyConfig ctx (config ctx)) (outputLine (js ''Current Configuration:'') st))"

definition cmdTools :: "REPLContext \<Rightarrow> REPLState \<Rightarrow> bool \<times> REPLState" where
  "cmdTools ctx st =
     (False,
      foldl (\<lambda>s (nm, descr). outputLine (js ''  - '' @ nm @ js '': '' @ descr) s)
        (outputLine (js ''Available Tools ('' @ showNat (length (tools ctx)) @ js ''):'') st)
        (tools ctx))"

definition roleName :: "role \<Rightarrow> jsstring" where
  "roleName r = (case r of User \<Rightarrow> js ''user'' | Assistant \<Rightarrow> js ''assistant''
                 | System \<Rightarrow> js ''system'')"

definition cmdHistory :: "REPLContext \<Rightarrow> REPLState \<Rightarrow> bool \<times> REPLState" where
  "cmdHistory ctx st =
     (let msgs = getMessages (session st)
      in if length msgs = 0 then (False, outputLine (js ''No conversation history'') st)
         else (False,
               foldl (\<lambda>s msg.
                        outputLine (js ''  ['' @ toLocaleTimeString ctx (timestamp msg) @ js ''] '' @
                                padEnd 10 (toUpperCase (roleName (role msg))) @ js '': '' @
                                take 100 (content msg)) s)
                 (outputLine (js ''Conversation History ('' @ showNat (length msgs) @
                          js '' messages):'') st)
                 msgs))"

definition runHandler :: "CommandHandler \<Rightarrow> REPLContext \<Rightarrow> REPLState \<Rightarrow> bool \<times> REPLState" where
  "runHandler handler ctx st =
     (case handler of CmdHelp \<Rightarrow> cmdHelp st | CmdClear \<Rightarrow> cmdClear st | CmdExit \<Rightarrow> cmdExit st
      | CmdConfig \<Rightarrow> cmdConfig ctx st | CmdTools \<Rightarrow> cmdTools ctx st
      | CmdHistory \<Rightarrow> cmdHistory ctx st)"

text \<open>\<open>replace(/^\//, '')\<close>: one leading slash is removed.\<close>

definition stripSlash :: "jsstring \<Rightarrow> jsstring" where
  "stripSlash s = (case s of [] \<Rightarrow> [] | c # cs \<Rightarrow> if c = 0x2F then cs else s)"

text \<open>
  The first lines of \<open>handleCommand\<close>: the pieces of the trimmed input and the name
  looked up.  \<open>split\<close> never returns an empty array; were \<open>parts[0]\<close> undefined, the
  name would be undefined and no handler found.
\<close>

definition commandParts :: "jsstring \<Rightarrow> jsstring list" where
  "commandParts inp = splitWs (trim inp)"

definition commandName :: "jsstring \<Rightarrow> jsstring option" where
  "commandName inp =
     (case commandParts inp of [] \<Rightarrow> None | p0 # _ \<Rightarrow> Some (stripSlash (toLowerCase p0)))"

definition handleCommand :: "REPLContext \<Rightarrow> jsstring \<Rightarrow> REPLState \<Rightarrow> bool \<times> REPLState" where
  "handleCommand ctx inp st =
     (case (case commandName inp of None \<Rightarrow> None | Some n \<Rightarrow> map_of registeredCommands n) of
        None \<Rightarrow>
          (False,
           outputLine (js ''Type /help for available commands'')
             (outputLine (js ''Unknown command: '' @
                      (case commandParts inp of [] \<Rightarrow> js ''undefined'' | p0 # _ \<Rightarrow> p0)) st))
      | Some handler \<Rightarrow>
          (let (result, st1) = runHandler handler ctx st in (result = True, st1)))"

definition ensureTokenLimit :: "REPLState \<Rightarrow> REPLState" where
  "ensureTokenLimit st =
     (let (wasTrimmed, s1) = trimToTokenLimit (session st);
          st1 = st\<lparr>session := s1\<rparr>
      in if wasTrimmed
         then st1\<lparr>consoleLog := consoleLog st1 @
                     [js ''Note: Conversation history was trimmed to fit token limit'']\<rparr>
         else st1)"

text \<open>
  \<open>streamResponse\<close>: every chunk is written to stdout as it arrives and appended to the
  response; an exception of the stream leaves the loop after the chunks before it.
\<close>

definition streamResponse ::
  "REPLContext \<Rightarrow> (role \<times> jsstring) list \<Rightarrow> REPLState \<Rightarrow> (thrown + jsstring) \<times> REPLState" where
  "streamResponse ctx msgs st =
     (let (chunks, failure) = chatStream (aiProvider ctx) msgs;
          st1 = st\<lparr>stdoutWrites := stdoutWrites st @ chunks\<rparr>
      in case failure of
           Some e \<Rightarrow> (Inl e, st1)
         | None \<Rightarrow> (Inr (concat chunks), st1\<lparr>stdoutWrites := stdoutWrites st1 @ [[0x0A]]\<rparr>))"

definition errorMessage :: "thrown \<Rightarrow> jsstring" where
  "errorMessage e = (case e of ErrorObject m \<Rightarrow> m | NonError \<Rightarrow> js ''Unknown error'')"

text \<open>
  \<open>processUserMessage\<close>; \<open>t1\<close> and \<open>t2\<close> are the clock readings of the two messages.  The
  body of the \<open>try\<close> gives either the exception and the state it was thrown in, or the
  state after the assistant message; the \<open>catch\<close> turns the exception into one output
  line.
\<close>

definition processUserMessage ::
  "REPLContext \<Rightarrow> int \<Rightarrow> int \<Rightarrow> jsstring \<Rightarrow> REPLState \<Rightarrow> thrown + REPLState" where
  "processUserMessage ctx t1 t2 cont st =
     (let st1 = st\<lparr>session := addMessage t1 User cont (session st)\<rparr>;
          st2 = ensureTokenLimit st1;
          msgs = getMessagesForAI (session st2);
          (tried, st3) =
            (if streamOutput (ui (config ctx)) then streamResponse ctx msgs st2
             else (case chat (aiProvider ctx) msgs of
                     Inl e \<Rightarrow> (Inl e, st2)
                   | Inr response \<Rightarrow> (Inr response, outputLine response st2)))
      in case tried of
           Inr response \<Rightarrow>
             Inr (st3\<lparr>session := addMessage t2 Assistant response (session st3)\<rparr>)
         | Inl e \<Rightarrow> Inr (outputLine (js ''Error: '' @ errorMessage e) st3))"

definition processInput ::
  "REPLContext \<Rightarrow> int \<Rightarrow> int \<Rightarrow> jsstring \<Rightarrow> REPLState \<Rightarrow> thrown + REPLState" where
  "processInput ctx t1 t2 inp st =
     (let trimmed = trim inp
      in if trimmed = [] then Inr st
         else if startsWith trimmed (js ''/'')
         then (let (shouldExit, st1) = handleCommand ctx trimmed st in Inr st1)
         else processUserMessage ctx t1 t2 trimmed st)"

text \<open>
  One iteration of the main loop of the chat command, on the line that \<open>readLine\<close>
  resolved with: the value of \<open>running\<close> after it, and the state.  An exception of
  \<open>processInput\<close> with the message \<open>EOF\<close> ends the loop; any other is logged.
\<close>

definition loopIteration ::
  "REPLContext \<Rightarrow> int \<Rightarrow> int \<Rightarrow> jsstring option \<Rightarrow> REPLState \<Rightarrow> bool \<times> REPLState" where
  "loopIteration ctx t1 t2 line st =
     (case line of
        None \<Rightarrow> (False, st)
      | Some l \<Rightarrow>
          (case processInput ctx t1 t2 l st of
             Inr st1 \<Rightarrow>
               (if toLowerCase (trim l) = js ''/exit'' \<or> toLowerCase (trim l) = js ''/quit''
                then (False, st1) else (True, st1))
           | Inl e \<Rightarrow> (if e = ErrorObject (js ''EOF'') then (False, st) else (True, st))))"



definition commandTable :: "jsstring list" where
  "commandTable =
     [js ''help'', js ''clear'', js ''exit'', js ''quit'', js ''config'', js ''tools'',
      js ''history'']"

text \<open>Sample contexts: a provider whose calls fail, with and without streaming.\<close>

definition failingProvider :: AIProvider where
  "failingProvider =
     \<lparr>chat = (\<lambda>msgs. Inl (ErrorObject (js ''network down''))),
      chatStream = (\<lambda>msgs. ([js ''Hel''], Some (ErrorObject (js ''network down''))))\<rparr>"

definition sampleContext :: "bool \<Rightarrow> REPLContext" where
  "sampleContext streaming =
     \<lparr>config = \<lparr>ui = \<lparr>theme = js ''dark'', streamOutput = streaming, showLineNumbers = True\<rparr>\<rparr>,
      aiProvider = failingProvider,
      tools = [],
      stringifyConfig = (\<lambda>c. js ''{}''),
      toLocaleTimeString = (\<lambda>t. js ''12:00:00'')\<rparr>"

definition freshState :: REPLState where
  "freshState =
     \<lparr>session = newSessionManager (Some 100000), outputs = [], stdoutWrites = [],
      consoleLog = []\<rparr>"


section \<open>Paths\<close>

text \<open>
  The functions of Node's \<open>path\<close> module that the file tools call, in their POSIX
  form.  \<open>resolve\<close> joins its arguments from the right until one is absolute, falls back
  on the current directory, and normalises the result: empty and \<open>.\<close> segments go, a
  \<open>..\<close> segment removes the segment before it and is dropped at the root.
\<close>

definition isAbsolute :: "jsstring \<Rightarrow> bool" where
  "isAbsolute p \<longleftrightarrow> p \<noteq> [] \<and> hd p = 0x2F"

fun splitSlash :: "jsstring \<Rightarrow> jsstring list" where
  "splitSlash [] = [[]]"
| "splitSlash (c # cs) =
     (if c = 0x2F then [] # splitSlash cs
      else (case splitSlash cs of [] \<Rightarrow> [[c]] | t # ts \<Rightarrow> (c # t) # ts))"

fun joinSlash :: "jsstring list \<Rightarrow> jsstring" where
  "joinSlash [] = []"
| "joinSlash [s] = s"
| "joinSlash (s # t # ss) = s @ 0x2F # joinSlash (t # ss)"

text \<open>The accumulator holds the segments kept so far, the last one first.\<close>

fun normalizeSegs :: "bool \<Rightarrow> jsstring list \<Rightarrow> jsstring list \<Rightarrow> jsstring list" where
  "normalizeSegs allowAboveRoot acc [] = rev acc"
| "normalizeSegs allowAboveRoot acc (s # ss) =
     (if s = [] \<or> s = [0x2E] then normalizeSegs allowAboveRoot acc ss
      else if s = [0x2E, 0x2E] then
        (if acc \<noteq> [] \<and> hd acc \<noteq> [0x2E, 0x2E] then normalizeSegs allowAboveRoot (tl acc) ss
         else if allowAboveRoot then normalizeSegs allowAboveRoot (s # acc) ss
         else normalizeSegs allowAboveRoot acc ss)
      else normalizeSegs allowAboveRoot (s # acc) ss)"

text \<open>The arguments of \<open>resolve\<close>, the last one first, joined up to the first absolute one.\<close>

fun gatherPath :: "jsstring \<Rightarrow> jsstring list \<Rightarrow> jsstring" where
  "gatherPath cwd [] = cwd"
| "gatherPath cwd (p # rest) =
     (if p = [] then gatherPath cwd rest
      else if isAbsolute p then p
      else gatherPath cwd rest @ 0x2F # p)"

definition resolveSegs :: "jsstring \<Rightarrow> jsstring list \<Rightarrow> bool \<times> jsstring list" where
  "resolveSegs cwd args =
     (let g = gatherPath cwd (rev args); resolvedAbsolute = isAbsolute g
      in (resolvedAbsolute, normalizeSegs (\<not> resolvedAbsolute) [] (splitSlash g)))"

definition resolve :: "jsstring \<Rightarrow> jsstring list \<Rightarrow> jsstring" where
  "resolve cwd args =
     (let (resolvedAbsolute, segs) = resolveSegs cwd args
      in if resolvedAbsolute then 0x2F # joinSlash segs
         else if segs = [] then [0x2E] else joinSlash segs)"

text \<open>
  \<open>relative(from, to)\<close> resolves both paths and answers one \<open>..\<close> for every segment of
  \<open>from\<close> after the common beginning, followed by the remaining segments of \<open>to\<close>.
\<close>

fun commonLength :: "jsstring list \<Rightarrow> jsstring list \<Rightarrow> nat" where
  "commonLength (x # xs) (y # ys) = (if x = y then Suc (commonLength xs ys) else 0)"
| "commonLength xs ys = 0"

definition segmentsOf :: "jsstring \<Rightarrow> jsstring \<Rightarrow> jsstring list" where
  "segmentsOf cwd p = snd (resolveSegs cwd [p])"

definition relative :: "jsstring \<Rightarrow> jsstring \<Rightarrow> jsstring \<Rightarrow> jsstring" where
  "relative cwd from to =
     (let f = segmentsOf cwd from; t = segmentsOf cwd to; c = commonLength f t
      in joinSlash (replicate (length f - c) [0x2E, 0x2E] @ drop c t))"

text \<open>A segment that normalisation keeps as it is.\<close>

definition goodSeg :: "jsstring \<Rightarrow> bool" where
  "goodSeg s \<longleftrightarrow> s \<noteq> [] \<and> s \<noteq> [0x2E] \<and> s \<noteq> [0x2E, 0x2E] \<and> 0x2F \<notin> set s"

section \<open>Tools\<close>

text \<open>The values a caller can pass as \<open>params\<close>.\<close>

datatype jsnumber = Integer int | NonInteger

datatype jsvalue =
    JUndefined | JNull | JBool bool | JNumber jsnumber | JString jsstring
  | JArray "jsvalue list" | JObject "(jsstring \<times> jsvalue) list"

datatype ToolData =
    ReadData jsstring jsstring
  | WriteData jsstring nat
  | CreateData jsstring
  | ListData "jsstring list" "(jsstring \<times> nat \<times> bool) list option" nat
  | DeleteData jsstring
  | ExecData jsstring jsstring "int option" bool

record ToolResult =
  success :: bool
  data :: "ToolData option"
  error :: "jsstring option"

definition failure :: "jsstring \<Rightarrow> ToolResult" where
  "failure msg = \<lparr>success = False, data = None, error = Some msg\<rparr>"

definition succeed :: "ToolData \<Rightarrow> ToolResult" where
  "succeed d = \<lparr>success = True, data = Some d, error = None\<rparr>"

record ExecaResult =
  exitCode :: "int option"
  stdout :: jsstring
  stderr :: jsstring

record ExecaError =
  message :: jsstring
  timedOut :: bool

text \<open>
  The host of the tools over a world \<open>'w\<close>: the current directory of the process, the
  message text of the \<open>ZodError\<close> for rejected parameters, the text of a value that
  is not a string inside a template literal, the byte length of
  \<open>Buffer.from(content, encoding)\<close>, and the calls into \<open>fs\<close>, \<open>fast-glob\<close> and
  \<open>execa\<close>.  Each call answers the message of the \<open>Error\<close> it rejects with, or its
  value, and the world after it.
\<close>

record 'w Host =
  cwd :: jsstring
  zodMessage :: "jsvalue \<Rightarrow> jsstring"
  stringOf :: "jsvalue \<Rightarrow> jsstring"
  bufferLength :: "jsstring \<Rightarrow> jsstring \<Rightarrow> nat"
  fsReadFile :: "jsstring \<Rightarrow> jsstring \<Rightarrow> 'w \<Rightarrow> (jsstring + jsstring) \<times> 'w"
  fsMkdir :: "jsstring \<Rightarrow> bool \<Rightarrow> 'w \<Rightarrow> (jsstring + unit) \<times> 'w"
  fsWriteFile :: "jsstring \<Rightarrow> jsstring \<Rightarrow> jsstring \<Rightarrow> 'w \<Rightarrow> (jsstring + unit) \<times> 'w"
  fsAccess :: "jsstring \<Rightarrow> 'w \<Rightarrow> (jsstring + unit) \<times> 'w"
  fsStat :: "jsstring \<Rightarrow> 'w \<Rightarrow> (jsstring + nat \<times> bool) \<times> 'w"
  fsReaddir :: "jsstring \<Rightarrow> 'w \<Rightarrow> (jsstring + jsstring list) \<times> 'w"
  fsRm :: "jsstring \<Rightarrow> bool \<Rightarrow> 'w \<Rightarrow> (jsstring + unit) \<times> 'w"
  fastGlob :: "jsstring \<Rightarrow> jsstring \<Rightarrow> 'w \<Rightarrow> (jsstring + jsstring list) \<times> 'w"
  execa :: "jsstring \<Rightarrow> jsstring list \<Rightarrow> int \<Rightarrow> jsstring \<Rightarrow> (jsstring \<times> jsstring) list option \<Rightarrow>
            'w \<Rightarrow> (ExecaError + ExecaResult) \<times> 'w"

text \<open>The tool context; the logger is never called by the tools.\<close>

record ToolContext =
  workspace :: jsstring

subsection \<open>Parameter schemas\<close>

definition getField :: "jsvalue \<Rightarrow> jsstring \<Rightarrow> jsvalue option" where
  "getField v k =
     (case v of
        JObject kvs \<Rightarrow> Some (case map_of kvs k of None \<Rightarrow> JUndefined | Some x \<Rightarrow> x)
      | _ \<Rightarrow> None)"

definition zString :: "jsvalue \<Rightarrow> jsstring option" where
  "zString v = (case v of JString x \<Rightarrow> Some x | _ \<Rightarrow> None)"

definition zStringDefault :: "jsstring \<Rightarrow> jsvalue \<Rightarrow> jsstring option" where
  "zStringDefault d v = (case v of JUndefined \<Rightarrow> Some d | _ \<Rightarrow> zString v)"

definition zStringOptional :: "jsvalue \<Rightarrow> jsstring option option" where
  "zStringOptional v = (case v of JUndefined \<Rightarrow> Some None | _ \<Rightarrow> map_option Some (zString v))"

definition zBoolDefault :: "bool \<Rightarrow> jsvalue \<Rightarrow> bool option" where
  "zBoolDefault d v = (case v of JUndefined \<Rightarrow> Some d | JBool b \<Rightarrow> Some b | _ \<Rightarrow> None)"

definition encodings :: "jsstring list" where
  "encodings = [js ''utf-8'', js ''base64'', js ''utf-16le'']"

definition zEncoding :: "jsvalue \<Rightarrow> jsstring option" where
  "zEncoding v =
     (case v of JUndefined \<Rightarrow> Some (js ''utf-8'')
      | JString x \<Rightarrow> if x \<in> set encodings then Some x else None
      | _ \<Rightarrow> None)"

fun zAll :: "('a \<Rightarrow> 'b option) \<Rightarrow> 'a list \<Rightarrow> 'b list option" where
  "zAll f [] = Some []"
| "zAll f (x # xs) =
     (case f x of None \<Rightarrow> None
      | Some y \<Rightarrow> (case zAll f xs of None \<Rightarrow> None | Some ys \<Rightarrow> Some (y # ys)))"

definition zStringArrayDefault :: "jsvalue \<Rightarrow> jsstring list option" where
  "zStringArrayDefault v =
     (case v of JUndefined \<Rightarrow> Some [] | JArray xs \<Rightarrow> zAll zString xs | _ \<Rightarrow> None)"

definition zTimeout :: "jsvalue \<Rightarrow> int option" where
  "zTimeout v =
     (case v of JUndefined \<Rightarrow> Some 30000
      | JNumber (Integer n) \<Rightarrow> if n > 0 then Some n else None
      | _ \<Rightarrow> None)"

definition zEnv :: "jsvalue \<Rightarrow> (jsstring \<times> jsstring) list option option" where
  "zEnv v =
     (case v of JUndefined \<Rightarrow> Some None
      | JObject kvs \<Rightarrow>
          map_option Some (zAll (\<lambda>(k, x). map_option (\<lambda>y. (k, y)) (zString x)) kvs)
      | _ \<Rightarrow> None)"

record PathParams =
  path :: jsstring

record ReadParams = PathParams +
  encoding :: jsstring

record WriteParams = ReadParams +
  fileContent :: jsstring

record DirParams = PathParams +
  recursive :: bool

record ListParams = DirParams +
  pattern :: jsstring
  includeStats :: bool

record ExecParams =
  command :: jsstring
  args :: "jsstring list"
  timeout :: int
  execCwd :: "jsstring option"
  env :: "(jsstring \<times> jsstring) list option"

text \<open>
  \<open>parameters.parse(params)\<close> of each tool: \<open>None\<close> stands for the \<open>ZodError\<close> it
  throws.  Keys that the schema does not name are dropped.
\<close>

definition parseRead :: "jsvalue \<Rightarrow> ReadParams option" where
  "parseRead v =
     (case getField v (js ''path'') of None \<Rightarrow> None | Some pv \<Rightarrow>
      case getField v (js ''encoding'') of None \<Rightarrow> None | Some ev \<Rightarrow>
      case zString pv of None \<Rightarrow> None | Some p \<Rightarrow>
      case zEncoding ev of None \<Rightarrow> None | Some e \<Rightarrow>
        Some \<lparr>path = p, encoding = e\<rparr>)"

definition parseWrite :: "jsvalue \<Rightarrow> WriteParams option" where
  "parseWrite v =
     (case getField v (js ''path'') of None \<Rightarrow> None | Some pv \<Rightarrow>
      case getField v (js ''content'') of None \<Rightarrow> None | Some cv \<Rightarrow>
      case getField v (js ''encoding'') of None \<Rightarrow> None | Some ev \<Rightarrow>
      case zString pv of None \<Rightarrow> None | Some p \<Rightarrow>
      case zString cv of None \<Rightarrow> None | Some c \<Rightarrow>
      case zEncoding ev of None \<Rightarrow> None | Some e \<Rightarrow>
        Some \<lparr>path = p, encoding = e, fileContent = c\<rparr>)"

definition parseDir :: "bool \<Rightarrow> jsvalue \<Rightarrow> DirParams option" where
  "parseDir recursiveDefault v =
     (case getField v (js ''path'') of None \<Rightarrow> None | Some pv \<Rightarrow>
      case getField v (js ''recursive'') of None \<Rightarrow> None | Some rv \<Rightarrow>
      case zString pv of None \<Rightarrow> None | Some p \<Rightarrow>
      case zBoolDefault recursiveDefault rv of None \<Rightarrow> None | Some r \<Rightarrow>
        Some \<lparr>path = p, recursive = r\<rparr>)"

definition parseList :: "jsvalue \<Rightarrow> ListParams option" where
  "parseList v =
     (case getField v (js ''path'') of None \<Rightarrow> None | Some pv \<Rightarrow>
      case getField v (js ''pattern'') of None \<Rightarrow> None | Some tv \<Rightarrow>
      case getField v (js ''recursive'') of None \<Rightarrow> None | Some rv \<Rightarrow>
      case getField v (js ''includeStats'') of None \<Rightarrow> None | Some iv \<Rightarrow>
      case zString pv of None \<Rightarrow> None | Some p \<Rightarrow>
      case zStringDefault (js ''*'') tv of None \<Rightarrow> None | Some t \<Rightarrow>
      case zBoolDefault False rv of None \<Rightarrow> None | Some r \<Rightarrow>
      case zBoolDefault False iv of None \<Rightarrow> None | Some i \<Rightarrow>
        Some \<lparr>path = p, recursive = r, pattern = t, includeStats = i\<rparr>)"

definition parseExec :: "jsvalue \<Rightarrow> ExecParams option" where
  "parseExec v =
     (case getField v (js ''command'') of None \<Rightarrow> None | Some cv \<Rightarrow>
      case getField v (js ''args'') of None \<Rightarrow> None | Some av \<Rightarrow>
      case getField v (js ''timeout'') of None \<Rightarrow> None | Some tv \<Rightarrow>
      case getField v (js ''cwd'') of None \<Rightarrow> None | Some dv \<Rightarrow>
      case getField v (js ''env'') of None \<Rightarrow> None | Some nv \<Rightarrow>
      case zString cv of None \<Rightarrow> None | Some c \<Rightarrow>
      case zStringArrayDefault av of None \<Rightarrow> None | Some a \<Rightarrow>
      case zTimeout tv of None \<Rightarrow> None | Some t \<Rightarrow>
      case zStringOptional dv of None \<Rightarrow> None | Some d \<Rightarrow>
      case zEnv nv of None \<Rightarrow> None | Some n \<Rightarrow>
        Some \<lparr>command = c, args = a, timeout = t, execCwd = d, env = n\<rparr>)"


subsection \<open>File tools\<close>

text \<open>
  \<open>resolveSafePath\<close>, with the current directory \<open>dir\<close> of the process that
  \<open>resolve\<close> reads: the absolute path, or the message of the error thrown.
\<close>

definition resolveSafePath :: "jsstring \<Rightarrow> jsstring \<Rightarrow> jsstring \<Rightarrow> jsstring + jsstring" where
  "resolveSafePath dir ws filePath =
     (let absoluteWorkspace = resolve dir [ws];
          absolutePath = resolve dir [filePath];
          relativePath = relative dir absoluteWorkspace absolutePath
      in if startsWith relativePath (js ''..'') \<or> isAbsolute relativePath
         then Inl (js ''Path is outside workspace'')
         else Inr absolutePath)"

text \<open>
  Each \<open>execute\<close> is given as the body of its \<open>try\<close>, which answers the message of
  the error thrown or the result returned, and the \<open>catch\<close> around it.  The outcome of
  \<open>execute\<close> is \<open>Inl\<close> when the promise rejects, that is, when an exception leaves the
  function.
\<close>

definition read_file_try ::
  "'w Host \<Rightarrow> ToolContext \<Rightarrow> jsvalue \<Rightarrow> 'w \<Rightarrow> (jsstring + ToolResult) \<times> 'w" where
  "read_file_try host ctx params w =
     (case parseRead params of
        None \<Rightarrow> (Inl (zodMessage host params), w)
      | Some ps \<Rightarrow>
          (case resolveSafePath (cwd host) (workspace ctx) (path ps) of
             Inl m \<Rightarrow> (Inl m, w)
           | Inr safePath \<Rightarrow>
               (case fsReadFile host safePath (encoding ps) w of
                  (Inl m, w1) \<Rightarrow> (Inl m, w1)
                | (Inr text, w1) \<Rightarrow> (Inr (succeed (ReadData text (path ps))), w1))))"

text \<open>\<open>typeof params === 'object' && params ? params.path : params\<close>, as text.\<close>

definition pathForMessage :: "'w Host \<Rightarrow> jsvalue \<Rightarrow> jsstring" where
  "pathForMessage host params =
     (let shown = (case params of
                     JObject kvs \<Rightarrow> (case map_of kvs (js ''path'') of None \<Rightarrow> JUndefined
                                      | Some x \<Rightarrow> x)
                   | JArray xs \<Rightarrow> JUndefined
                   | _ \<Rightarrow> params)
      in case shown of JString x \<Rightarrow> x | _ \<Rightarrow> stringOf host shown)"

definition read_file_execute ::
  "'w Host \<Rightarrow> ToolContext \<Rightarrow> jsvalue \<Rightarrow> 'w \<Rightarrow> (thrown + ToolResult) \<times> 'w" where
  "read_file_execute host ctx params w =
     (case read_file_try host ctx params w of
        (Inr r, w1) \<Rightarrow> (Inr r, w1)
      | (Inl m, w1) \<Rightarrow>
          (Inr (if includesStr m (js ''outside workspace'') then failure m
                else if includesStr m (js ''ENOENT'')
                then failure (js ''File not found: '' @ pathForMessage host params)
                else failure m), w1))"

definition write_file_try ::
  "'w Host \<Rightarrow> ToolContext \<Rightarrow> jsvalue \<Rightarrow> 'w \<Rightarrow> (jsstring + ToolResult) \<times> 'w" where
  "write_file_try host ctx params w =
     (case parseWrite params of
        None \<Rightarrow> (Inl (zodMessage host params), w)
      | Some ps \<Rightarrow>
          (case resolveSafePath (cwd host) (workspace ctx) (path ps) of
             Inl m \<Rightarrow> (Inl m, w)
           | Inr safePath \<Rightarrow>
               (let parentDir = resolve (cwd host) [safePath, js ''..'']
                in case fsMkdir host parentDir True w of
                     (Inl m, w1) \<Rightarrow> (Inl m, w1)
                   | (Inr u, w1) \<Rightarrow>
                       (case fsWriteFile host safePath (fileContent ps) (encoding ps) w1 of
                          (Inl m, w2) \<Rightarrow> (Inl m, w2)
                        | (Inr u2, w2) \<Rightarrow>
                            (Inr (succeed (WriteData (path ps)
                                    (bufferLength host (fileContent ps) (encoding ps)))), w2)))))"

definition write_file_execute ::
  "'w Host \<Rightarrow> ToolContext \<Rightarrow> jsvalue \<Rightarrow> 'w \<Rightarrow> (thrown + ToolResult) \<times> 'w" where
  "write_file_execute host ctx params w =
     (case write_file_try host ctx params w of
        (Inr r, w1) \<Rightarrow> (Inr r, w1)
      | (Inl m, w1) \<Rightarrow> (Inr (failure m), w1))"

definition create_dir_try ::
  "'w Host \<Rightarrow> ToolContext \<Rightarrow> jsvalue \<Rightarrow> 'w \<Rightarrow> (jsstring + ToolResult) \<times> 'w" where
  "create_dir_try host ctx params w =
     (case parseDir True params of
        None \<Rightarrow> (Inl (zodMessage host params), w)
      | Some ps \<Rightarrow>
          (case resolveSafePath (cwd host) (workspace ctx) (path ps) of
             Inl m \<Rightarrow> (Inl m, w)
           | Inr safePath \<Rightarrow>
               (case fsMkdir host safePath (recursive ps) w of
                  (Inl m, w1) \<Rightarrow> (Inl m, w1)
                | (Inr u, w1) \<Rightarrow> (Inr (succeed (CreateData (path ps))), w1))))"

definition create_dir_execute ::
  "'w Host \<Rightarrow> ToolContext \<Rightarrow> jsvalue \<Rightarrow> 'w \<Rightarrow> (thrown + ToolResult) \<times> 'w" where
  "create_dir_execute host ctx params w =
     (case create_dir_try host ctx params w of
        (Inr r, w1) \<Rightarrow> (Inr r, w1)
      | (Inl m, w1) \<Rightarrow> (Inr (failure m), w1))"

text \<open>
  The loop over the listed files when statistics are asked for: a failing \<open>stat\<close>
  gives size \<open>0\<close> and no directory.
\<close>

fun statLoop ::
  "'w Host \<Rightarrow> jsstring \<Rightarrow> jsstring list \<Rightarrow> 'w \<Rightarrow> (jsstring \<times> nat \<times> bool) list \<times> 'w" where
  "statLoop host safePath [] w = ([], w)"
| "statLoop host safePath (file # files) w =
     (let filePath = resolve (cwd host) [safePath, file];
          (r, w1) = fsStat host filePath w;
          entry = (case r of Inl m \<Rightarrow> (file, 0, False) | Inr (sz, isDir) \<Rightarrow> (file, sz, isDir));
          (entries, w2) = statLoop host safePath files w1
      in (entry # entries, w2))"

definition list_files_try ::
  "'w Host \<Rightarrow> ToolContext \<Rightarrow> jsvalue \<Rightarrow> 'w \<Rightarrow> (jsstring + ToolResult) \<times> 'w" where
  "list_files_try host ctx params w =
     (case parseList params of
        None \<Rightarrow> (Inl (zodMessage host params), w)
      | Some ps \<Rightarrow>
          (case resolveSafePath (cwd host) (workspace ctx) (path ps) of
             Inl m \<Rightarrow> (Inl m, w)
           | Inr safePath \<Rightarrow>
               (case fsAccess host safePath w of
                  (Inl m, w1) \<Rightarrow> (Inr (failure (js ''Directory not found: '' @ path ps)), w1)
                | (Inr u, w1) \<Rightarrow>
                    (let globPattern = (if recursive ps then js ''**/'' @ pattern ps
                                        else pattern ps)
                     in case fastGlob host globPattern safePath w1 of
                          (Inl m, w2) \<Rightarrow> (Inl m, w2)
                        | (Inr files, w2) \<Rightarrow>
                            (if includeStats ps
                             then (let (stats, w3) = statLoop host safePath files w2
                                   in (Inr (succeed (ListData files (Some stats) (length files))),
                                       w3))
                             else (Inr (succeed (ListData files None (length files))), w2))))))"

definition list_files_execute ::
  "'w Host \<Rightarrow> ToolContext \<Rightarrow> jsvalue \<Rightarrow> 'w \<Rightarrow> (thrown + ToolResult) \<times> 'w" where
  "list_files_execute host ctx params w =
     (case list_files_try host ctx params w of
        (Inr r, w1) \<Rightarrow> (Inr r, w1)
      | (Inl m, w1) \<Rightarrow> (Inr (failure m), w1))"

definition notEmptyMessage :: jsstring where
  "notEmptyMessage = js ''Directory not empty (use recursive=true to delete)''"

definition delete_file_try ::
  "'w Host \<Rightarrow> ToolContext \<Rightarrow> DirParams \<Rightarrow> 'w \<Rightarrow> (jsstring + ToolResult) \<times> 'w" where
  "delete_file_try host ctx ps w =
     (case resolveSafePath (cwd host) (workspace ctx) (path ps) of
        Inl m \<Rightarrow> (Inl m, w)
      | Inr safePath \<Rightarrow>
          (case fsAccess host safePath w of
             (Inl m, w1) \<Rightarrow>
               (Inr (failure (js ''File or directory not found: '' @ path ps)), w1)
           | (Inr u, w1) \<Rightarrow>
               (case fsStat host safePath w1 of
                  (Inl m, w2) \<Rightarrow> (Inl m, w2)
                | (Inr (sz, isDirectory), w2) \<Rightarrow>
                    (let (checked, w3) =
                           (if isDirectory \<and> \<not> recursive ps
                            then (case fsReaddir host safePath w2 of
                                    (Inl m, w') \<Rightarrow> (Some (Inl m), w')
                                  | (Inr entries, w') \<Rightarrow>
                                      (if length entries > 0
                                       then (Some (Inr (failure notEmptyMessage)), w')
                                       else (None, w')))
                            else (None, w2))
                     in case checked of
                          Some early \<Rightarrow> (early, w3)
                        | None \<Rightarrow>
                            (let deleteRecursive = (if isDirectory then True else recursive ps)
                             in case fsRm host safePath deleteRecursive w3 of
                                  (Inl m, w4) \<Rightarrow> (Inl m, w4)
                                | (Inr u2, w4) \<Rightarrow>
                                    (Inr (succeed (DeleteData (path ps))), w4))))))"

text \<open>In \<open>delete_file\<close> the parameters are parsed before the \<open>try\<close> begins.\<close>

definition delete_file_execute ::
  "'w Host \<Rightarrow> ToolContext \<Rightarrow> jsvalue \<Rightarrow> 'w \<Rightarrow> (thrown + ToolResult) \<times> 'w" where
  "delete_file_execute host ctx params w =
     (case parseDir False params of
        None \<Rightarrow> (Inl (ErrorObject (zodMessage host params)), w)
      | Some ps \<Rightarrow>
          (case delete_file_try host ctx ps w of
             (Inr r, w1) \<Rightarrow> (Inr r, w1)
           | (Inl m, w1) \<Rightarrow>
               (Inr (if includesStr m (js ''ENOTEMPTY'') \<or> includesStr m (js ''not empty'')
                     then failure notEmptyMessage
                     else if includesStr m (js ''EISDIR'') \<and> \<not> recursive ps
                     then failure notEmptyMessage
                     else failure m), w1)))"

subsection \<open>Shell tool\<close>

definition exec_try ::
  "'w Host \<Rightarrow> ToolContext \<Rightarrow> jsvalue \<Rightarrow> 'w \<Rightarrow> (ExecaError + ToolResult) \<times> 'w" where
  "exec_try host ctx params w =
     (case parseExec params of
        None \<Rightarrow> (Inl \<lparr>message = zodMessage host params, timedOut = False\<rparr>, w)
      | Some ps \<Rightarrow>
          (let dir = (case execCwd ps of None \<Rightarrow> workspace ctx
                      | Some d \<Rightarrow> if d = [] then workspace ctx else d)
           in case execa host (command ps) (args ps) (timeout ps) dir (env ps) w of
                (Inl e, w1) \<Rightarrow> (Inl e, w1)
              | (Inr result, w1) \<Rightarrow>
                  (if exitCode result \<noteq> Some 0
                   then (Inr \<lparr>success = False,
                              data = Some (ExecData (stdout result) (stderr result)
                                             (exitCode result) True),
                              error = None\<rparr>, w1)
                   else (Inr (succeed (ExecData (stdout result) (stderr result)
                                         (exitCode result) False)), w1))))"

definition exec_execute ::
  "'w Host \<Rightarrow> ToolContext \<Rightarrow> jsvalue \<Rightarrow> 'w \<Rightarrow> (thrown + ToolResult) \<times> 'w" where
  "exec_execute host ctx params w =
     (case exec_try host ctx params w of
        (Inr r, w1) \<Rightarrow> (Inr r, w1)
      | (Inl err, w1) \<Rightarrow>
          (Inr (if timedOut err \<or> includesStr (message err) (js ''timed out'')
                then failure (js ''Command timed out'')
                else if includesStr (message err) (js ''command not found'') \<or>
                        includesStr (message err) (js ''ENOENT'')
                then failure (js ''Command not found'')
                else failure (message err)), w1))"

subsection \<open>Registry\<close>

datatype Tool = Read_file | Write_file | Create_dir | List_files | Delete_file | Exec

definition fileTools :: "Tool list" where
  "fileTools = [Read_file, Write_file, Create_dir, List_files, Delete_file]"

definition builtInTools :: "Tool list" where
  "builtInTools = fileTools @ [Exec]"

definition execute ::
  "Tool \<Rightarrow> 'w Host \<Rightarrow> ToolContext \<Rightarrow> jsvalue \<Rightarrow> 'w \<Rightarrow> (thrown + ToolResult) \<times> 'w" where
  "execute tool =
     (case tool of
        Read_file \<Rightarrow> read_file_execute | Write_file \<Rightarrow> write_file_execute
      | Create_dir \<Rightarrow> create_dir_execute | List_files \<Rightarrow> list_files_execute
      | Delete_file \<Rightarrow> delete_file_execute | Exec \<Rightarrow> exec_execute)"

text \<open>The \<open>path\<close> that the schema of a file tool reads from accepted parameters.\<close>

definition validatedPath :: "Tool \<Rightarrow> jsvalue \<Rightarrow> jsstring option" where
  "validatedPath tool params =
     (case tool of
        Read_file \<Rightarrow> map_option path (parseRead params)
      | Write_file \<Rightarrow> map_option path (parseWrite params)
      | Create_dir \<Rightarrow> map_option path (parseDir True params)
      | List_files \<Rightarrow> map_option path (parseList params)
      | Delete_file \<Rightarrow> map_option path (parseDir False params)
      | Exec \<Rightarrow> None)"

text \<open>
  A path lies inside the workspace when, both resolved from the directory \<open>dir\<close>,
  the segments of the workspace root begin the segments of the path.
\<close>

definition insideWorkspace :: "jsstring \<Rightarrow> jsstring \<Rightarrow> jsstring \<Rightarrow> bool" where
  "insideWorkspace dir ws p \<longleftrightarrow> prefix (segmentsOf dir ws) (segmentsOf dir p)"

text \<open>
  A host whose world is the list of the calls made so far: every call succeeds and
  records its name and path.
\<close>

definition loggingHost :: "jsstring \<Rightarrow> (jsstring \<times> jsstring) list Host" where
  "loggingHost dir =
     \<lparr>cwd = dir,
      zodMessage = (\<lambda>v. js ''Required''),
      stringOf = (\<lambda>v. js ''undefined''),
      bufferLength = (\<lambda>c e. length c),
      fsReadFile = (\<lambda>p e w. (Inr (js ''root:x:0:0''), w @ [(js ''readFile'', p)])),
      fsMkdir = (\<lambda>p r w. (Inr (), w @ [(js ''mkdir'', p)])),
      fsWriteFile = (\<lambda>p c e w. (Inr (), w @ [(js ''writeFile'', p)])),
      fsAccess = (\<lambda>p w. (Inr (), w @ [(js ''access'', p)])),
      fsStat = (\<lambda>p w. (Inr (0, False), w @ [(js ''stat'', p)])),
      fsReaddir = (\<lambda>p w. (Inr [], w @ [(js ''readdir'', p)])),
      fsRm = (\<lambda>p r w. (Inr (), w @ [(js ''rm'', p)])),
      fastGlob = (\<lambda>g p w. (Inr [], w @ [(js ''glob'', p)])),
      execa = (\<lambda>c a t d e w.
                 (Inr \<lparr>exitCode = Some 0, stdout = [], stderr = []\<rparr>, w @ [(js ''execa'', c)]))\<rparr>"

definition passwdParams :: jsvalue where
  "passwdParams = JObject [(js ''path'', JString (js ''../../etc/passwd''))]"


section \<open>Object identity in the session manager\<close>

text \<open>
  The session manager once more, now with the objects it allocates: the array held in
  the field \<open>messages\<close>, the message objects in it, and the \<open>Date\<close> object that each
  message refers to.  A reference is an address in the store.
\<close>

type_synonym ref = nat

record MessageObject =
  objRole :: role
  objContent :: jsstring
  objTimestamp :: ref

record Store =
  dates :: "ref \<rightharpoonup> int"
  objects :: "ref \<rightharpoonup> MessageObject"
  arrays :: "ref \<rightharpoonup> ref list"
  nextRef :: ref

record ManagerObject =
  messagesRef :: ref
  ceiling :: int

definition emptyStore :: Store where
  "emptyStore = \<lparr>dates = Map.empty, objects = Map.empty, arrays = Map.empty, nextRef = 0\<rparr>"

definition allocDate :: "int \<Rightarrow> Store \<Rightarrow> ref \<times> Store" where
  "allocDate t st =
     (nextRef st, st\<lparr>dates := (dates st)(nextRef st \<mapsto> t), nextRef := Suc (nextRef st)\<rparr>)"

definition allocObject :: "MessageObject \<Rightarrow> Store \<Rightarrow> ref \<times> Store" where
  "allocObject m st =
     (nextRef st, st\<lparr>objects := (objects st)(nextRef st \<mapsto> m), nextRef := Suc (nextRef st)\<rparr>)"

definition allocArray :: "ref list \<Rightarrow> Store \<Rightarrow> ref \<times> Store" where
  "allocArray xs st =
     (nextRef st, st\<lparr>arrays := (arrays st)(nextRef st \<mapsto> xs), nextRef := Suc (nextRef st)\<rparr>)"

definition arrayAt :: "Store \<Rightarrow> ref \<Rightarrow> ref list" where
  "arrayAt st a = (case arrays st a of None \<Rightarrow> [] | Some xs \<Rightarrow> xs)"

definition newManager :: "int option \<Rightarrow> Store \<Rightarrow> ManagerObject \<times> Store" where
  "newManager opt st =
     (let (a, st1) = allocArray [] st
      in (\<lparr>messagesRef = a, ceiling = (case opt of None \<Rightarrow> 100000 | Some n \<Rightarrow> n)\<rparr>, st1))"

text \<open>\<open>addMessage\<close>: a new \<open>Date\<close>, a new message object, pushed onto the array.\<close>

definition addMessageObj ::
  "int \<Rightarrow> role \<Rightarrow> jsstring \<Rightarrow> ManagerObject \<Rightarrow> Store \<Rightarrow> Store" where
  "addMessageObj now r c mgr st =
     (let (d, st1) = allocDate now st;
          (m, st2) = allocObject \<lparr>objRole = r, objContent = c, objTimestamp = d\<rparr> st1
      in st2\<lparr>arrays := (arrays st2)(messagesRef mgr \<mapsto> arrayAt st2 (messagesRef mgr) @ [m])\<rparr>)"

text \<open>
  \<open>getMessages\<close>: \<open>map\<close> builds a new array, and the spread \<open>{ ...msg }\<close> a new object
  for every message with the same three property values; the value of \<open>timestamp\<close> is
  the reference to the \<open>Date\<close>.
\<close>

fun copyMessages :: "ref list \<Rightarrow> Store \<Rightarrow> ref list \<times> Store" where
  "copyMessages [] st = ([], st)"
| "copyMessages (m # ms) st =
     (case objects st m of
        None \<Rightarrow> copyMessages ms st
      | Some obj \<Rightarrow>
          (let (c, st1) = allocObject obj st;
               (cs, st2) = copyMessages ms st1
           in (c # cs, st2)))"

definition getMessagesObj :: "ManagerObject \<Rightarrow> Store \<Rightarrow> ref \<times> Store" where
  "getMessagesObj mgr st =
     (let (copies, st1) = copyMessages (arrayAt st (messagesRef mgr)) st
      in allocArray copies st1)"

text \<open>The log that the manager holds, read off the store.\<close>

definition readMessage :: "Store \<Rightarrow> ref \<Rightarrow> SessionMessage option" where
  "readMessage st m =
     (case objects st m of
        None \<Rightarrow> None
      | Some obj \<Rightarrow>
          (case dates st (objTimestamp obj) of
             None \<Rightarrow> None
           | Some t \<Rightarrow> Some \<lparr>role = objRole obj, content = objContent obj, timestamp = t\<rparr>))"

definition readArray :: "Store \<Rightarrow> ref \<Rightarrow> SessionMessage option list" where
  "readArray st a = map (readMessage st) (arrayAt st a)"

definition internalLog :: "ManagerObject \<Rightarrow> Store \<Rightarrow> SessionMessage option list" where
  "internalLog mgr st = readArray st (messagesRef mgr)"

text \<open>
  A caller that holds the array returned by \<open>getMessages\<close> and runs
  \<open>result[0].timestamp.setTime(t)\<close>.
\<close>

definition setTimeOfFirst :: "ref \<Rightarrow> int \<Rightarrow> Store \<Rightarrow> Store" where
  "setTimeOfFirst result t st =
     (case arrayAt st result of
        [] \<Rightarrow> st
      | m # ms \<Rightarrow>
          (case objects st m of
             None \<Rightarrow> st
           | Some obj \<Rightarrow> st\<lparr>dates := (dates st)(objTimestamp obj \<mapsto> t)\<rparr>))"

text \<open>A caller that runs \<open>result[0].content = c\<close> and then \<open>result.pop()\<close>.\<close>

definition overwriteAndPop :: "ref \<Rightarrow> jsstring \<Rightarrow> Store \<Rightarrow> Store" where
  "overwriteAndPop result c st =
     (let st1 = (case arrayAt st result of
                   [] \<Rightarrow> st
                 | m # ms \<Rightarrow>
                     (case objects st m of
                        None \<Rightarrow> st
                      | Some obj \<Rightarrow> st\<lparr>objects := (objects st)(m \<mapsto> obj\<lparr>objContent := c\<rparr>)\<rparr>))
      in st1\<lparr>arrays := (arrays st1)(result \<mapsto> butlast (arrayAt st1 result))\<rparr>)"

text \<open>A manager with one message, and the store after one call of \<open>getMessages\<close>.\<close>

definition oneMessage :: "ManagerObject \<times> Store" where
  "oneMessage =
     (let (mgr, st) = newManager None emptyStore
      in (mgr, addMessageObj 1000 User (js ''hi'') mgr st))"

definition afterGetMessages :: "ref \<times> Store" where
  "afterGetMessages = getMessagesObj (fst oneMessage) (snd oneMessage)"


section \<open>Properties of the session manager\<close>




lemma trimLoop_stop:
  "\<not> (int (getEstimatedTokenCount s) > maxTokens s \<and> length (messages s) > 0) \<Longrightarrow>
   trimLoop s = s"
  by (subst trimLoop.simps) auto

lemma trimLoop_go:
  "int (getEstimatedTokenCount s) > maxTokens s \<and> length (messages s) > 0 \<Longrightarrow>
   trimLoop s = trimLoop (s\<lparr>messages := tl (messages s)\<rparr>)"
  by (subst trimLoop.simps) simp

lemma trimLoop_drop:
  "\<exists>k. trimLoop s = s\<lparr>messages := drop k (messages s)\<rparr> \<and>
       (\<forall>j<k. overBudget (maxTokens s) (drop j (messages s))) \<and>
       \<not> overBudget (maxTokens s) (drop k (messages s))"
proof (induction s rule: trimLoop.induct)
  case (1 s)
  show ?case
  proof (cases "int (getEstimatedTokenCount s) > maxTokens s \<and> length (messages s) > 0")
    case True
    let ?s' = "s\<lparr>messages := tl (messages s)\<rparr>"
    from 1[OF True] obtain k where
      k: "trimLoop ?s' = ?s'\<lparr>messages := drop k (messages ?s')\<rparr>"
         "\<forall>j<k. overBudget (maxTokens ?s') (drop j (messages ?s'))"
         "\<not> overBudget (maxTokens ?s') (drop k (messages ?s'))"
      by blast
    have eq: "trimLoop s = trimLoop ?s'"
      using True by (rule trimLoop_go)
    have d: "\<And>j. drop j (tl (messages s)) = drop (Suc j) (messages s)"
      by (simp add: drop_Suc)
    have "\<forall>j<Suc k. overBudget (maxTokens s) (drop j (messages s))"
    proof (intro allI impI)
      fix j assume j: "j < Suc k"
      show "overBudget (maxTokens s) (drop j (messages s))"
      proof (cases j)
        case 0
        then show ?thesis
          using True by (simp add: overBudget_def getEstimatedTokenCount_def)
      next
        case (Suc i)
        then show ?thesis using k(2) j d by simp
      qed
    qed
    then show ?thesis
      using k eq d by (intro exI[of _ "Suc k"]) simp
  next
    case False
    then have "trimLoop s = s" by (rule trimLoop_stop)
    then show ?thesis
      using False
      by (intro exI[of _ 0]) (simp add: overBudget_def getEstimatedTokenCount_def)
  qed
qed

lemma overBudget_nonempty: "overBudget mx ms \<Longrightarrow> ms \<noteq> []"
  by (auto simp: overBudget_def)









text \<open>
  C7.  No operation reorders the log: \<open>addMessage\<close> appends at the newest end and keeps
  what was there, \<open>trimToTokenLimit\<close> leaves a suffix of the log (it removes from the
  oldest end only), so the newest message goes only when the whole log goes;
  \<open>clear\<close> empties the log.
\<close>

theorem session_log_never_reordered:
  "messages (addMessage now r c s) =
     messages s @ [\<lparr>role = r, content = c, timestamp = now\<rparr>] \<and>
   suffix (messages (snd (trimToTokenLimit s))) (messages s) \<and>
   (messages (snd (trimToTokenLimit s)) = [] \<or>
    last (messages (snd (trimToTokenLimit s))) = last (messages s)) \<and>
   messages (clear s) = []"
proof -
  from trimLoop_drop[of s] obtain k where
    k: "trimLoop s = s\<lparr>messages := drop k (messages s)\<rparr>" by blast
  have "\<exists>n. messages (snd (trimToTokenLimit s)) = drop n (messages s)"
  proof (cases "int (getEstimatedTokenCount s) \<le> maxTokens s")
    case True
    then have "messages (snd (trimToTokenLimit s)) = drop 0 (messages s)"
      by (simp add: trimToTokenLimit_def)
    then show ?thesis by blast
  next
    case False
    then have "messages (snd (trimToTokenLimit s)) = drop k (messages s)"
      using k by (simp add: trimToTokenLimit_def)
    then show ?thesis by blast
  qed
  then obtain n where n: "messages (snd (trimToTokenLimit s)) = drop n (messages s)"
    by blast
  have "suffix (drop n (messages s)) (messages s)"
    by (rule suffix_drop)
  moreover have "drop n (messages s) = [] \<or> last (drop n (messages s)) = last (messages s)"
    by (cases "n < length (messages s)") (simp_all add: last_drop)
  ultimately show ?thesis
    using n by (simp add: addMessage_def clear_def)
qed

section \<open>Properties of the raw input handler\<close>



lemma filterCommands_settled [simp]: "settled (filterCommands q h) = settled h"
  by (simp add: filterCommands_def Let_def)

lemma updateMenuState_settled [simp]: "settled (updateMenuState h) = settled h"
  by (cases "getCommandQuery h") (simp_all add: updateMenuState_def)



lemma callResolve_keeps:
  "v \<noteq> Some [] \<Longrightarrow> settled h \<noteq> Some (Some []) \<Longrightarrow>
   settled (callResolve v h) \<noteq> Some (Some [])"
  by (simp add: callResolve_def)

lemma js_slash: "js ''/'' = [0x2F]"
  by (simp add: js_def)

lemma js_slash_ne: "js ''/'' @ s \<noteq> []"
  by (simp add: js_def)

lemma handleSubmit_keeps:
  assumes "handleSubmit h = Inr h'" and "settled h \<noteq> Some (Some [])"
  shows "settled h' \<noteq> Some (Some [])"
  using assms
  by (auto simp: handleSubmit_def Let_def cleanup_def callResolve_def js_slash split: if_splits)

lemma handleCancel_keeps:
  "settled h \<noteq> Some (Some []) \<Longrightarrow> settled (handleCancel h) \<noteq> Some (Some [])"
  by (simp add: handleCancel_def Let_def cleanup_def callResolve_def)

lemma handleData_keeps:
  assumes "handleData d h = Inr h'" and "settled h \<noteq> Some (Some [])"
  shows "settled h' \<noteq> Some (Some [])"
proof -
  have s: "settled (handleBackspace h) = settled h" "settled (handleArrowUp h) = settled h"
    "settled (handleArrowDown h) = settled h" "settled (handleArrowRight h) = settled h"
    "settled (handleArrowLeft h) = settled h" "settled (handleChar d h) = settled h"
    by (simp_all add: handleBackspace_def handleArrowUp_def handleArrowDown_def
        handleArrowRight_def handleArrowLeft_def handleChar_def Let_def)
  show ?thesis
    using assms s handleSubmit_keeps[of h h'] handleCancel_keeps[of h]
    unfolding handleData_def by (auto split: if_splits)
qed

lemma feed_keeps:
  "feed ds h = Inr h' \<Longrightarrow> settled h \<noteq> Some (Some []) \<Longrightarrow> settled h' \<noteq> Some (Some [])"
proof (induction ds arbitrary: h)
  case Nil
  then show ?case by simp
next
  case (Cons d ds)
  then show ?case
    by (auto split: sum.splits dest: handleData_keeps)
qed

lemma startsWith_slash_ne: "startsWith (trim a) (js ''/'') \<Longrightarrow> a \<noteq> []"
  by (auto simp: startsWith_def trim_def js_def)

lemma trim_slash_ne: "trim a = js ''/'' \<Longrightarrow> a \<noteq> []"
  by (auto simp: trim_def js_def)

lemma useReadline_keeps:
  assumes "settled h \<noteq> Some (Some [])"
  shows "settled (useReadline t h) \<noteq> Some (Some [])"
proof (cases "answerLine t")
  case None
  then show ?thesis using assms by (simp add: useReadline_def)
next
  case (Some answer)
  show ?thesis
  proof (cases "trim answer = js ''/'' \<or> startsWith (trim answer) (js ''/'')")
    case True
    then have ne: "answer \<noteq> []" using startsWith_slash_ne trim_slash_ne by blast
    show ?thesis
      using Some True ne assms
      by (auto simp: useReadline_def Let_def callResolve_def js_slash_ne
          split: option.splits if_splits)
  next
    case False
    then show ?thesis
      using Some assms by (auto simp: useReadline_def Let_def callResolve_def split: if_splits)
  qed
qed

text \<open>
  C10.  The promise of \<open>readLine\<close> is never resolved with the empty string, whatever
  the terminal delivers.  Enter as the first key, Ctrl+C and Ctrl+D all resolve it with
  \<open>null\<close>; so does Enter on any handler whose buffer is empty and whose menu is hidden;
  and the readline fallback resolves an empty line with \<open>null\<close> too.
\<close>

theorem readLine_never_resolves_empty_string:
  "resolution (readLine p t h) \<noteq> Some (Some []) \<and>
   resolution (readLine p (rawTerminal ([0x0D] # ks)) h) = Some None \<and>
   resolution (readLine p (rawTerminal ([0x03] # ks)) h) = Some None \<and>
   resolution (readLine p (rawTerminal ([0x04] # ks)) h) = Some None \<and>
   resolution (handleData [0x0D]
     (h\<lparr>state := (state h)\<lparr>buffer := [], showMenu := False\<rparr>,
        active := True, resolveInput := True, settled := None\<rparr>)) = Some None \<and>
   resolution (readLine p (lineTerminal (Some []) sel) h) = Some None"
proof -
  let ?h1 = "h\<lparr>resolveInput := True, settled := None, active := True, prompt := p,
                  state := initialState, filteredCommands := []\<rparr>"
  have g: "resolution (readLine p t h) \<noteq> Some (Some [])"
  proof (cases "readLine p t h")
    case (Inl e)
    then show ?thesis by (simp add: resolution_def)
  next
    case (Inr h')
    have "settled h' \<noteq> Some (Some [])"
    proof (cases "isTTY t \<and> rawModeOk t")
      case True
      then have "feed (keys t) (?h1\<lparr>rawMode := True\<rparr>) = Inr h'"
        using Inr by (simp add: readLine_def Let_def)
      then show ?thesis by (rule feed_keeps) simp
    next
      case False
      then have "h' = useReadline t ?h1"
        using Inr by (auto simp: readLine_def Let_def split: if_splits)
      then show ?thesis using useReadline_keeps[of ?h1 t] by simp
    qed
    then show ?thesis using Inr by (simp add: resolution_def)
  qed
  have inactive: "\<And>ds k. \<not> active k \<Longrightarrow> feed ds k = Inr k"
  proof -
    fix ds :: "jsstring list" and k :: RawInputHandler
    assume "\<not> active k"
    then show "feed ds k = Inr k"
      by (induction ds) (simp_all add: handleData_def)
  qed
  have enter: "resolution (readLine p (rawTerminal ([0x0D] # ks)) h) = Some None"
    by (simp add: readLine_def rawTerminal_def Let_def handleData_def handleSubmit_def
        initialState_def cleanup_def callResolve_def inactive resolution_def)
  have ctrlc: "resolution (readLine p (rawTerminal ([0x03] # ks)) h) = Some None"
    by (simp add: readLine_def rawTerminal_def Let_def handleData_def handleCancel_def
        initialState_def cleanup_def callResolve_def inactive resolution_def)
  have ctrld: "resolution (readLine p (rawTerminal ([0x04] # ks)) h) = Some None"
    by (simp add: readLine_def rawTerminal_def Let_def handleData_def handleCancel_def
        initialState_def cleanup_def callResolve_def inactive resolution_def)
  have line: "resolution (readLine p (lineTerminal (Some []) sel) h) = Some None"
    by (simp add: readLine_def lineTerminal_def Let_def useReadline_def trim_def js_def
        startsWith_def callResolve_def resolution_def)
  have empty: "resolution (handleData [0x0D]
     (h\<lparr>state := (state h)\<lparr>buffer := [], showMenu := False\<rparr>,
        active := True, resolveInput := True, settled := None\<rparr>)) = Some None"
    by (simp add: handleData_def handleSubmit_def Let_def cleanup_def callResolve_def
        resolution_def)
  show ?thesis using g enter ctrlc ctrld empty line by blast
qed

section \<open>Properties of the REPL\<close>







lemma splitWs_nonempty: "splitWs s \<noteq> []"
  by (induction s) (auto split: list.splits)

lemma lowerUnit_whitespace: "isWhiteSpace c \<Longrightarrow> isWhiteSpace (lowerUnit c)"
  unfolding lowerUnit_def isWhiteSpace_def
  by (auto simp: word_le_nat_alt)

lemma dropWhile_none: "\<forall>c\<in>set y. \<not> P c \<Longrightarrow> dropWhile P y = y"
  by (cases y) auto

lemma no_ws_trim: "\<forall>c\<in>set x. \<not> isWhiteSpace c \<Longrightarrow> trim x = x"
  by (simp add: trim_def dropWhile_none)

lemma no_ws_split: "\<forall>c\<in>set x. \<not> isWhiteSpace c \<Longrightarrow> splitWs x = [x]"
  by (induction x) auto

lemma lower_no_ws:
  assumes "\<forall>c\<in>set (toLowerCase x). \<not> isWhiteSpace c"
  shows "\<forall>c\<in>set x. \<not> isWhiteSpace c"
  using assms lowerUnit_whitespace by (auto simp: toLowerCase_def)

lemma exit_line_commandName:
  assumes "toLowerCase x = js ''/exit'' \<or> toLowerCase x = js ''/quit''"
  shows "commandName x = Some (js ''exit'') \<or> commandName x = Some (js ''quit'')"
proof -
  have "\<forall>c\<in>set (toLowerCase x). \<not> isWhiteSpace c"
    using assms by (auto simp: js_def isWhiteSpace_def)
  then have nw: "\<forall>c\<in>set x. \<not> isWhiteSpace c" by (rule lower_no_ws)
  have "commandParts x = [x]"
    using nw by (simp add: commandParts_def no_ws_trim no_ws_split)
  then have "commandName x = Some (stripSlash (toLowerCase x))"
    by (simp add: commandName_def)
  then show ?thesis using assms by (auto simp: stripSlash_def js_def)
qed

text \<open>
  C9.  For an input that starts with a slash after trimming and whose command name
  (first piece between white space, lower-cased, one leading slash removed) is none of
  \<open>help\<close>, \<open>clear\<close>, \<open>exit\<close>, \<open>quit\<close>, \<open>config\<close>, \<open>tools\<close>, \<open>history\<close>:
  \<open>handleCommand\<close> returns false after the two diagnostic lines, \<open>processInput\<close>
  returns normally, the session is unchanged and the main loop keeps running.
\<close>

theorem unknown_command_is_reported:
  assumes "startsWith (trim inp) (js ''/'')"
    and "commandName (trim inp) = Some n" and "n \<notin> set commandTable"
  shows "\<exists>st'. processInput ctx t1 t2 inp st = Inr st' \<and>
           handleCommand ctx (trim inp) st = (False, st') \<and>
           outputs st' = outputs st @
             [js ''Unknown command: '' @ hd (commandParts (trim inp)),
              js ''Type /help for available commands''] \<and>
           session st' = session st \<and>
           loopIteration ctx t1 t2 (Some inp) st = (True, st')"
proof -
  let ?st' = "outputLine (js ''Type /help for available commands'')
               (outputLine (js ''Unknown command: '' @ hd (commandParts (trim inp))) st)"
  have none: "map_of registeredCommands n = None"
    using assms(3) by (simp add: registeredCommands_def commandTable_def)
  obtain p0 ps where parts: "commandParts (trim inp) = p0 # ps"
    using splitWs_nonempty[of "trim (trim inp)"]
    by (cases "commandParts (trim inp)") (auto simp: commandParts_def)
  have hc: "handleCommand ctx (trim inp) st = (False, ?st')"
    using assms(2) none parts by (simp add: handleCommand_def)
  have ne: "trim inp \<noteq> []"
    using assms(1) by (auto simp: startsWith_def js_def)
  have pi: "processInput ctx t1 t2 inp st = Inr ?st'"
    using assms(1) ne hc by (simp add: processInput_def Let_def)
  have "\<not> (toLowerCase (trim inp) = js ''/exit'' \<or> toLowerCase (trim inp) = js ''/quit'')"
  proof
    assume "toLowerCase (trim inp) = js ''/exit'' \<or> toLowerCase (trim inp) = js ''/quit''"
    then have "commandName (trim inp) = Some (js ''exit'') \<or>
               commandName (trim inp) = Some (js ''quit'')"
      by (rule exit_line_commandName)
    with assms(2,3) show False by (auto simp: commandTable_def)
  qed
  then have li: "loopIteration ctx t1 t2 (Some inp) st = (True, ?st')"
    using pi by (simp add: loopIteration_def)
  show ?thesis
    using pi hc li by (intro exI[of _ ?st']) (simp add: outputLine_def)
qed

theorem unknown_command_is_reported_witness:
  "startsWith (trim (js ''/Bogus now'')) (js ''/'') \<and>
   commandName (trim (js ''/Bogus now'')) = Some (js ''bogus'') \<and>
   js ''bogus'' \<notin> set commandTable \<and>
   (\<exists>st'. processInput (sampleContext False) 1 2 (js ''/Bogus now'') freshState = Inr st' \<and>
      handleCommand (sampleContext False) (trim (js ''/Bogus now'')) freshState = (False, st') \<and>
      outputs st' = [js ''Unknown command: /Bogus'', js ''Type /help for available commands''] \<and>
      session st' = session freshState \<and>
      loopIteration (sampleContext False) 1 2 (Some (js ''/Bogus now'')) freshState = (True, st'))"
proof -
  have t: "trim (js ''/Bogus now'') = js ''/Bogus now''"
    by (simp add: trim_def js_def isWhiteSpace_def)
  have a: "startsWith (trim (js ''/Bogus now'')) (js ''/'')"
    by (simp add: t) (simp add: startsWith_def js_def)
  have p: "commandParts (js ''/Bogus now'') = [js ''/Bogus'', js ''now'']"
    by (simp add: commandParts_def trim_def js_def isWhiteSpace_def)
  have b: "commandName (trim (js ''/Bogus now'')) = Some (js ''bogus'')"
    by (simp add: t commandName_def p)
       (simp add: js_def toLowerCase_def lowerUnit_def stripSlash_def)
  have c: "js ''bogus'' \<notin> set commandTable"
    by (simp add: commandTable_def js_def)
  from unknown_command_is_reported[OF a b c, of "sampleContext False" 1 2 freshState]
  obtain st' where
    s: "processInput (sampleContext False) 1 2 (js ''/Bogus now'') freshState = Inr st'"
       "handleCommand (sampleContext False) (trim (js ''/Bogus now'')) freshState = (False, st')"
       "outputs st' = outputs freshState @
          [js ''Unknown command: '' @ hd (commandParts (trim (js ''/Bogus now''))),
           js ''Type /help for available commands'']"
       "session st' = session freshState"
       "loopIteration (sampleContext False) 1 2 (Some (js ''/Bogus now'')) freshState = (True, st')"
    by blast
  have "outputs st' = [js ''Unknown command: /Bogus'', js ''Type /help for available commands'']"
    using s(3) by (simp add: t p freshState_def) (simp add: js_def)
  then have
    "\<exists>st'. processInput (sampleContext False) 1 2 (js ''/Bogus now'') freshState = Inr st' \<and>
      handleCommand (sampleContext False) (trim (js ''/Bogus now'')) freshState = (False, st') \<and>
      outputs st' = [js ''Unknown command: /Bogus'', js ''Type /help for available commands''] \<and>
      session st' = session freshState \<and>
      loopIteration (sampleContext False) 1 2 (Some (js ''/Bogus now'')) freshState = (True, st')"
    using s(1,2,4,5) by (intro exI[of _ st']) simp
  then show ?thesis using a b c by simp
qed

section \<open>Properties of the tools\<close>

lemma commonLength_prefix: "commonLength f t = length f \<Longrightarrow> prefix f t"
  by (induction f t rule: commonLength.induct) (auto split: if_splits)

lemma commonLength_le: "commonLength f t \<le> length f"
  by (induction f t rule: commonLength.induct) auto

lemma joinSlash_prefix: "prefix s (joinSlash (s # ss))"
  by (cases ss) auto

lemma relative_outside:
  assumes "\<not> prefix (segmentsOf dir a) (segmentsOf dir b)"
  shows "startsWith (relative dir a b) (js ''..'')"
proof -
  let ?f = "segmentsOf dir a" and ?t = "segmentsOf dir b"
  have "commonLength ?f ?t \<noteq> length ?f"
    using assms commonLength_prefix by blast
  then have "commonLength ?f ?t < length ?f"
    using commonLength_le[of ?f ?t] by simp
  then obtain m where m: "length ?f - commonLength ?f ?t = Suc m"
    by (cases "length ?f - commonLength ?f ?t") auto
  have "js ''..'' = [0x2E, 0x2E]" by (simp add: js_def)
  then show ?thesis
    using m joinSlash_prefix by (simp add: relative_def Let_def startsWith_def)
qed

lemma splitSlash_nonempty: "splitSlash x \<noteq> []"
  by (induction x) (auto split: list.splits)

lemma splitSlash_no_slash: "s \<in> set (splitSlash x) \<Longrightarrow> 0x2F \<notin> set s"
  by (induction x arbitrary: s) (auto split: if_splits list.splits)

lemma normalizeSegs_skip:
  "x = [] \<or> x = [0x2E] \<Longrightarrow> normalizeSegs False acc (x # xs) = normalizeSegs False acc xs"
  by auto

lemma normalizeSegs_pop:
  "acc \<noteq> [] \<and> hd acc \<noteq> [0x2E, 0x2E] \<Longrightarrow>
   normalizeSegs False acc ([0x2E, 0x2E] # xs) = normalizeSegs False (tl acc) xs"
  by simp

lemma normalizeSegs_root:
  "\<not> (acc \<noteq> [] \<and> hd acc \<noteq> [0x2E, 0x2E]) \<Longrightarrow>
   normalizeSegs False acc ([0x2E, 0x2E] # xs) = normalizeSegs False acc xs"
  by (cases acc) simp_all

lemma normalizeSegs_push:
  "x \<noteq> [] \<Longrightarrow> x \<noteq> [0x2E] \<Longrightarrow> x \<noteq> [0x2E, 0x2E] \<Longrightarrow>
   normalizeSegs False acc (x # xs) = normalizeSegs False (x # acc) xs"
  by simp

lemma normalizeSegs_good:
  "\<forall>a\<in>set acc. goodSeg a \<Longrightarrow> \<forall>s\<in>set xs. 0x2F \<notin> set s \<Longrightarrow>
   \<forall>s\<in>set (normalizeSegs False acc xs). goodSeg s"
proof (induction xs arbitrary: acc)
  case Nil
  then show ?case by simp
next
  case (Cons x xs)
  have rest: "\<forall>s\<in>set xs. 0x2F \<notin> set s" using Cons.prems(2) by simp
  consider (skip) "x = [] \<or> x = [0x2E]"
    | (up) "x = [0x2E, 0x2E]"
    | (keep) "x \<noteq> []" "x \<noteq> [0x2E]" "x \<noteq> [0x2E, 0x2E]"
    by blast
  then show ?case
  proof cases
    case skip
    show ?thesis
      unfolding normalizeSegs_skip[OF skip] by (rule Cons.IH[OF Cons.prems(1) rest])
  next
    case up
    have tl: "\<forall>a\<in>set (tl acc). goodSeg a"
      using Cons.prems(1) by (cases acc) auto
    show ?thesis
    proof (cases "acc \<noteq> [] \<and> hd acc \<noteq> [0x2E, 0x2E]")
      case True
      show ?thesis
        unfolding up normalizeSegs_pop[OF True] by (rule Cons.IH[OF tl rest])
    next
      case False
      show ?thesis
        unfolding up normalizeSegs_root[OF False] by (rule Cons.IH[OF Cons.prems(1) rest])
    qed
  next
    case keep
    have "0x2F \<notin> set x" using Cons.prems(2) by simp
    then have "goodSeg x" using keep by (simp add: goodSeg_def)
    then have g: "\<forall>a\<in>set (x # acc). goodSeg a" using Cons.prems(1) by simp
    show ?thesis
      unfolding normalizeSegs_push[OF keep] by (rule Cons.IH[OF g rest])
  qed
qed

lemma splitSlash_single: "0x2F \<notin> set s \<Longrightarrow> splitSlash s = [s]"
  by (induction s) auto

lemma splitSlash_append:
  "0x2F \<notin> set s \<Longrightarrow> splitSlash (s @ 0x2F # rest) = s # splitSlash rest"
  by (induction s) auto

lemma splitSlash_join:
  "segs \<noteq> [] \<Longrightarrow> \<forall>s\<in>set segs. 0x2F \<notin> set s \<Longrightarrow> splitSlash (joinSlash segs) = segs"
  by (induction segs rule: joinSlash.induct) (auto simp: splitSlash_single splitSlash_append)

lemma normalizeSegs_kept:
  "\<forall>s\<in>set xs. goodSeg s \<Longrightarrow> normalizeSegs False acc xs = rev acc @ xs"
  by (induction xs arbitrary: acc) (auto simp: goodSeg_def)

lemma resolveSegs_rendered:
  assumes "\<forall>s\<in>set segs. goodSeg s"
  shows "resolveSegs dir [0x2F # joinSlash segs] = (True, segs)"
proof (cases segs)
  case Nil
  then show ?thesis by (simp add: resolveSegs_def isAbsolute_def)
next
  case (Cons a list)
  have "\<forall>s\<in>set segs. 0x2F \<notin> set s" using assms by (auto simp: goodSeg_def)
  then have "splitSlash (joinSlash segs) = segs" using Cons by (intro splitSlash_join) auto
  then show ?thesis
    using assms by (simp add: resolveSegs_def isAbsolute_def normalizeSegs_kept)
qed

lemma gatherPath_absolute: "isAbsolute dir \<Longrightarrow> isAbsolute (gatherPath dir [p])"
  by (auto simp: isAbsolute_def)

lemma segmentsOf_resolve:
  assumes "isAbsolute dir"
  shows "segmentsOf dir (resolve dir [p]) = segmentsOf dir p"
proof -
  let ?g = "gatherPath dir [p]"
  let ?segs = "normalizeSegs False [] (splitSlash ?g)"
  have ab: "isAbsolute ?g" using assms by (rule gatherPath_absolute)
  have r: "resolveSegs dir [p] = (True, ?segs)"
    using ab by (simp add: resolveSegs_def Let_def)
  have good: "\<forall>s\<in>set ?segs. goodSeg s"
    by (rule normalizeSegs_good) (auto dest: splitSlash_no_slash)
  have "resolve dir [p] = 0x2F # joinSlash ?segs"
    using r by (simp add: resolve_def)
  then show ?thesis
    using resolveSegs_rendered[OF good, of dir] r by (simp add: segmentsOf_def)
qed

lemma resolveSafePath_outside:
  "isAbsolute dir \<Longrightarrow> \<not> insideWorkspace dir ws p \<Longrightarrow>
   resolveSafePath dir ws p = Inl (js ''Path is outside workspace'')"
  using relative_outside[of dir "resolve dir [ws]" "resolve dir [p]"]
  by (simp add: insideWorkspace_def resolveSafePath_def Let_def segmentsOf_resolve)

lemma outside_message:
  "includesStr (js ''Path is outside workspace'') (js ''outside workspace'')"
  "\<not> includesStr (js ''Path is outside workspace'') (js ''ENOTEMPTY'')"
  "\<not> includesStr (js ''Path is outside workspace'') (js ''not empty'')"
  "\<not> includesStr (js ''Path is outside workspace'') (js ''EISDIR'')"
  by (simp_all add: js_def)

text \<open>
  C1 (as amended).  The file tools resolve the path argument, like the workspace root,
  against the current directory of the process (an absolute path).  For each of the
  five file tools and accepted parameters whose path so resolved lies outside the
  workspace root, \<open>execute\<close> returns the failing result with the error
  \<open>Path is outside workspace\<close> and leaves the world as it was: no call into the file
  system is made, whatever the host would answer.
\<close>

theorem file_tools_reject_paths_outside_workspace:
  assumes "tool \<in> set fileTools" and "validatedPath tool params = Some p"
    and "isAbsolute (cwd host)"
    and "\<not> insideWorkspace (cwd host) (workspace ctx) p"
  shows "execute tool host ctx params w =
           (Inr \<lparr>success = False, data = None,
                 error = Some (js ''Path is outside workspace'')\<rparr>, w)"
proof -
  note out = resolveSafePath_outside[OF assms(3) assms(4)]
  show ?thesis
  proof (cases tool)
    case Read_file
    then show ?thesis using assms(2) out outside_message
      by (auto simp: execute_def validatedPath_def read_file_execute_def read_file_try_def failure_def)
  next
    case Write_file
    then show ?thesis using assms(2) out
      by (auto simp: execute_def validatedPath_def write_file_execute_def write_file_try_def failure_def)
  next
    case Create_dir
    then show ?thesis using assms(2) out
      by (auto simp: execute_def validatedPath_def create_dir_execute_def create_dir_try_def failure_def)
  next
    case List_files
    then show ?thesis using assms(2) out
      by (auto simp: execute_def validatedPath_def list_files_execute_def list_files_try_def failure_def)
  next
    case Delete_file
    then show ?thesis using assms(2) out outside_message
      by (auto simp: execute_def validatedPath_def delete_file_execute_def delete_file_try_def failure_def)
  next
    case Exec
    then show ?thesis using assms(1) by (simp add: fileTools_def)
  qed
qed

theorem file_tools_reject_paths_outside_workspace_witness:
  "Read_file \<in> set fileTools \<and>
   validatedPath Read_file passwdParams = Some (js ''../../etc/passwd'') \<and>
   isAbsolute (cwd (loggingHost (js ''/srv/ws''))) \<and>
   \<not> insideWorkspace (cwd (loggingHost (js ''/srv/ws''))) (workspace \<lparr>workspace = js ''/srv/ws''\<rparr>)
       (js ''../../etc/passwd'') \<and>
   execute Read_file (loggingHost (js ''/srv/ws'')) \<lparr>workspace = js ''/srv/ws''\<rparr> passwdParams [] =
     (Inr \<lparr>success = False, data = None, error = Some (js ''Path is outside workspace'')\<rparr>, [])"
proof -
  have a: "Read_file \<in> set fileTools"
    by (simp add: fileTools_def)
  have b: "validatedPath Read_file passwdParams = Some (js ''../../etc/passwd'')"
    by code_simp
  have "isAbsolute (js ''/srv/ws'')"
    by code_simp
  then have c: "isAbsolute (cwd (loggingHost (js ''/srv/ws'')))"
    by (simp add: loggingHost_def)
  have "\<not> insideWorkspace (js ''/srv/ws'') (js ''/srv/ws'') (js ''../../etc/passwd'')"
    by code_simp
  then have d: "\<not> insideWorkspace (cwd (loggingHost (js ''/srv/ws'')))
                   (workspace \<lparr>workspace = js ''/srv/ws''\<rparr>) (js ''../../etc/passwd'')"
    by (simp add: loggingHost_def)
  show ?thesis
    using a b c d file_tools_reject_paths_outside_workspace[OF a b c d, of "[]"] by simp
qed

text \<open>
  C1 (as stated) fails when the process runs in a subdirectory of the workspace: from
  \<open>/srv/ws/a/b\<close> the path \<open>../../etc/passwd\<close> resolves to \<open>/srv/ws/etc/passwd\<close>, inside
  the root \<open>/srv/ws\<close>, so \<open>read_file\<close> performs the read and succeeds.
\<close>

theorem passwd_path_inside_workspace_counterexample:
  "execute Read_file (loggingHost (js ''/srv/ws/a/b'')) \<lparr>workspace = js ''/srv/ws''\<rparr>
     passwdParams [] =
     (Inr (succeed (ReadData (js ''root:x:0:0'') (js ''../../etc/passwd''))),
      [(js ''readFile'', js ''/srv/ws/etc/passwd'')])"
proof -
  have a: "resolveSafePath (js ''/srv/ws/a/b'') (js ''/srv/ws'') (js ''../../etc/passwd'') =
           Inr (js ''/srv/ws/etc/passwd'')"
    by code_simp
  have b: "parseRead passwdParams = Some \<lparr>path = js ''../../etc/passwd'', encoding = js ''utf-8''\<rparr>"
    by code_simp
  show ?thesis
    using a b
    by (simp add: execute_def read_file_execute_def read_file_try_def loggingHost_def)
qed

lemma other_tools_never_throw:
  "tool \<noteq> Delete_file \<Longrightarrow> \<exists>r. fst (execute tool host ctx params w) = Inr r"
  by (cases tool)
     (auto simp: execute_def read_file_execute_def write_file_execute_def
        create_dir_execute_def list_files_execute_def exec_execute_def
        split: prod.splits sum.splits)

lemma delete_file_accepted_never_throws:
  "parseDir False params = Some ps \<Longrightarrow>
   \<exists>r. fst (execute Delete_file host ctx params w) = Inr r"
  by (auto simp: execute_def delete_file_execute_def split: prod.splits sum.splits)

text \<open>
  C2 fails on \<open>delete_file\<close>: its parameters are parsed before the \<open>try\<close> begins, so
  for the parameters \<open>{}\<close> (no \<open>path\<close>) the \<open>ZodError\<close> leaves \<open>execute\<close> and no
  result is returned.  The other five tools parse inside the \<open>try\<close> and never throw.
\<close>

theorem delete_file_throws_on_rejected_params:
  "execute Delete_file host ctx (JObject []) w =
     (Inl (ErrorObject (zodMessage host (JObject []))), w)"
  by (simp add: execute_def delete_file_execute_def parseDir_def getField_def zString_def)

section \<open>Properties of the copies returned by getMessages\<close>

lemma copyMessages_nextRef:
  "copyMessages ms st = (cs, st') \<Longrightarrow> nextRef st \<le> nextRef st'"
proof (induction ms arbitrary: st cs st')
  case Nil
  then show ?case by simp
next
  case (Cons m ms)
  show ?case
  proof (cases "objects st m")
    case None
    then show ?thesis using Cons by simp
  next
    case (Some obj)
    obtain ds st2 where r: "copyMessages ms (snd (allocObject obj st)) = (ds, st2)"
      by (cases "copyMessages ms (snd (allocObject obj st))") auto
    then have "nextRef (snd (allocObject obj st)) \<le> nextRef st2"
      by (rule Cons.IH)
    moreover have "st' = st2"
      using Cons.prems Some r by (simp add: allocObject_def split: prod.splits)
    ultimately show ?thesis by (simp add: allocObject_def)
  qed
qed

lemma getMessagesObj_fresh_array:
  assumes "messagesRef mgr < nextRef st"
  shows "fst (getMessagesObj mgr st) \<noteq> messagesRef mgr"
proof -
  obtain cs st1 where c: "copyMessages (arrayAt st (messagesRef mgr)) st = (cs, st1)"
    by (cases "copyMessages (arrayAt st (messagesRef mgr)) st") auto
  then have "nextRef st \<le> nextRef st1" by (rule copyMessages_nextRef)
  moreover have "fst (getMessagesObj mgr st) = nextRef st1"
    using c by (simp add: getMessagesObj_def allocArray_def)
  ultimately show ?thesis using assms by simp
qed

text \<open>
  C6 fails on the timestamps: \<open>getMessages\<close> copies the array and each message object,
  but the copies refer to the \<open>Date\<close> objects of the originals.  With one message added
  at time \<open>1000\<close>, the returned array is a new one and reads as the log does; writing to
  the copy's \<open>content\<close> and popping the returned array leave the log as it was; but
  \<open>result[0].timestamp.setTime(0)\<close> changes the timestamp inside the manager.
\<close>

theorem getMessages_shares_timestamp_objects:
  "fst afterGetMessages \<noteq> messagesRef (fst oneMessage) \<and>
   readArray (snd afterGetMessages) (fst afterGetMessages) =
     internalLog (fst oneMessage) (snd oneMessage) \<and>
   internalLog (fst oneMessage) (snd afterGetMessages) =
     [Some \<lparr>role = User, content = js ''hi'', timestamp = 1000\<rparr>] \<and>
   internalLog (fst oneMessage)
     (overwriteAndPop (fst afterGetMessages) (js ''changed'') (snd afterGetMessages)) =
     [Some \<lparr>role = User, content = js ''hi'', timestamp = 1000\<rparr>] \<and>
   internalLog (fst oneMessage)
     (setTimeOfFirst (fst afterGetMessages) 0 (snd afterGetMessages)) =
     [Some \<lparr>role = User, content = js ''hi'', timestamp = 0\<rparr>]"
  by (simp add: afterGetMessages_def oneMessage_def newManager_def emptyStore_def
      addMessageObj_def getMessagesObj_def allocArray_def allocObject_def allocDate_def
      arrayAt_def readArray_def readMessage_def internalLog_def setTimeOfFirst_def
      overwriteAndPop_def Let_def)

end
